theory Spec2Isabelle
  imports
    Main
    "HOL-Library.Char_ord"
    "HOL-Library.List_Lexorder"
    "HOL-Library.Product_Lexorder"
begin

section \<open>Appointment lifecycle of the garage backend\<close>

text \<open>
  A shallow embedding of \<^verbatim>\<open>AppointmentsService\<close> (appointments.service.ts) and of the two
  controller routes that reach it (appointments.controller.ts). Every service method is a
  function from the database state to an outcome and the state it leaves behind, so that a
  method that throws after a write still shows the write.
\<close>

subsection \<open>Constants and entities\<close>

text \<open>
  Modelled from the spec: the constant files \<^verbatim>\<open>role.constant\<close>,
  \<^verbatim>\<open>appointment-status.constant\<close> and \<^verbatim>\<open>notification-type.constant\<close> are not part of
  the sources at hand. Roles are the strings the spec names; the appointment status is the
  three-valued enumeration of the spec's data model; the notification types are the three
  members the service refers to.
\<close>

definition ROLE_CLIENT :: string where
  "ROLE_CLIENT = ''client''"

definition ROLE_MECHANIC :: string where
  "ROLE_MECHANIC = ''mechanic''"

definition ROLE_ADMIN :: string where
  "ROLE_ADMIN = ''admin''"

datatype AppointmentStatus = PENDING | ACCEPTED | REJECTED

text \<open>The column value of a status, which a \<^verbatim>\<open>where\<close> clause compares with a query string.\<close>

fun status_value :: "AppointmentStatus \<Rightarrow> string" where
  "status_value PENDING = ''pending''"
| "status_value ACCEPTED = ''accepted''"
| "status_value REJECTED = ''rejected''"

datatype NotificationType = APPOINTMENT_CREATED | APPOINTMENT_ACCEPTED | APPOINTMENT_REJECTED

text \<open>
  The three HTTP exceptions the service throws, each with its message, and the runtime's
  \<^verbatim>\<open>TypeError\<close> for a property read on null.
\<close>

datatype error =
    NotFoundException string
  | BadRequestException string
  | ForbiddenException string
  | TypeError

fun is_NotFound :: "error \<Rightarrow> bool" where
  "is_NotFound (NotFoundException m) = True"
| "is_NotFound e = False"

fun is_BadRequest :: "error \<Rightarrow> bool" where
  "is_BadRequest (BadRequestException m) = True"
| "is_BadRequest e = False"

fun is_Forbidden :: "error \<Rightarrow> bool" where
  "is_Forbidden (ForbiddenException m) = True"
| "is_Forbidden e = False"

text \<open>
  Rows of the tables. Users, vehicles and schedules are keyed by their primary key, so the
  row holds the remaining columns the service reads.
\<close>

record User =
  u_name :: string
  u_role :: string

record Vehicle =
  v_clientId :: nat
  v_licensePlate :: string

record MechanicSchedule =
  s_mechanicId :: nat
  s_date :: string
  availableHours :: "string list"

text \<open>
  An appointment entity: its columns, and the four relations, which are \<open>None\<close> unless a
  query loaded them or the service assigned them.
\<close>

record Appointment =
  a_id :: nat
  a_clientId :: nat
  a_mechanicId :: nat
  a_vehicleId :: nat
  a_scheduleId :: nat
  a_hour :: string
  a_date :: string
  a_description :: string
  a_status :: AppointmentStatus
  a_rejectionReason :: "string option"
  a_client :: "User option"
  a_mechanic :: "User option"
  a_vehicle :: "Vehicle option"
  a_schedule :: "MechanicSchedule option"

record Notification =
  n_userId :: nat
  n_type :: NotificationType
  n_title :: string
  n_message :: string
  n_appointmentId :: nat

record CreateAppointmentDto =
  c_mechanicId :: nat
  c_vehicleId :: nat
  c_scheduleId :: nat
  c_hour :: string
  c_date :: string
  c_description :: string

record UpdateAppointmentDto =
  d_status :: "AppointmentStatus option"
  d_rejectionReason :: "string option"

record RejectAppointmentDto =
  r_rejectionReason :: string

text \<open>
  The persistent state: the four tables, the counter of the appointment table's generated
  primary key, and the queue of notification requests.
\<close>

record db =
  users :: "nat \<rightharpoonup> User"
  vehicles :: "nat \<rightharpoonup> Vehicle"
  schedules :: "nat \<rightharpoonup> MechanicSchedule"
  appointments :: "Appointment list"
  nextAppointmentId :: nat
  notifications :: "Notification list"

text \<open>JavaScript truthiness of an optional string and of an optional number.\<close>

fun truthy_string :: "string option \<Rightarrow> bool" where
  "truthy_string None = False"
| "truthy_string (Some x) = (x \<noteq> [])"

fun truthy_number :: "nat option \<Rightarrow> bool" where
  "truthy_number None = False"
| "truthy_number (Some n) = (n \<noteq> 0)"

text \<open>Decimal rendering of a number inside a template string.\<close>

fun string_of_nat :: "nat \<Rightarrow> string" where
  "string_of_nat n =
     (if n < 10 then [''0123456789'' ! n]
      else string_of_nat (n div 10) @ [''0123456789'' ! (n mod 10)])"

declare string_of_nat.simps [simp del]

subsection \<open>Collaborators\<close>

text \<open>\<^verbatim>\<open>UsersService.findById\<close> and \<^verbatim>\<open>findByIdOrThrow\<close> (users.service.ts).\<close>

definition findById :: "db \<Rightarrow> nat \<Rightarrow> User option" where
  "findById s i = users s i"

definition findByIdOrThrow :: "db \<Rightarrow> nat \<Rightarrow> error + User" where
  "findByIdOrThrow s i =
     (case findById s i of
        None \<Rightarrow> Inl (NotFoundException (''User with ID '' @ string_of_nat i @ '' not found''))
      | Some user \<Rightarrow> Inr user)"

text \<open>
  Modelled from the spec: \<^verbatim>\<open>VehiclesService.findOne\<close> is not part of the sources at hand.
  The spec's error taxonomy lists a missing vehicle under NotFound, and the vehicle-owner
  guard catches a \<^verbatim>\<open>NotFoundException\<close> from this call. Its message is not known and is
  left empty.
\<close>

definition vehicles_findOne :: "db \<Rightarrow> nat \<Rightarrow> error + Vehicle" where
  "vehicles_findOne s i =
     (case vehicles s i of
        None \<Rightarrow> Inl (NotFoundException [])
      | Some vehicle \<Rightarrow> Inr vehicle)"

text \<open>
  Modelled from the spec: \<^verbatim>\<open>SchedulesService\<close> is not part of the sources at hand. By the
  spec's contract of the schedule store, \<^verbatim>\<open>getScheduleById\<close> fails with NotFound if the
  schedule is absent and returns it otherwise; \<^verbatim>\<open>removeHourFromSchedule\<close> fails with
  NotFound if the schedule does not exist and removes the hour from the available set if
  present; \<^verbatim>\<open>addHourToSchedule\<close> fails with NotFound if the schedule is missing and
  re-inserts the hour without duplicating it. The messages are not known and left empty.
\<close>

definition getScheduleById :: "db \<Rightarrow> nat \<Rightarrow> error + MechanicSchedule" where
  "getScheduleById s i =
     (case schedules s i of
        None \<Rightarrow> Inl (NotFoundException [])
      | Some schedule \<Rightarrow> Inr schedule)"

definition removeHourFromSchedule :: "db \<Rightarrow> nat \<Rightarrow> string \<Rightarrow> (error + unit) \<times> db" where
  "removeHourFromSchedule s i hour =
     (case schedules s i of
        None \<Rightarrow> (Inl (NotFoundException []), s)
      | Some schedule \<Rightarrow>
          (Inr (),
           s\<lparr>schedules := (schedules s)
                (i \<mapsto> schedule\<lparr>availableHours := removeAll hour (availableHours schedule)\<rparr>)\<rparr>))"

definition addHourToSchedule :: "db \<Rightarrow> nat \<Rightarrow> string \<Rightarrow> (error + unit) \<times> db" where
  "addHourToSchedule s i hour =
     (case schedules s i of
        None \<Rightarrow> (Inl (NotFoundException []), s)
      | Some schedule \<Rightarrow>
          (Inr (),
           s\<lparr>schedules := (schedules s)
                (i \<mapsto> schedule\<lparr>availableHours :=
                   (if hour \<in> set (availableHours schedule) then availableHours schedule
                    else availableHours schedule @ [hour])\<rparr>)\<rparr>))"

text \<open>
  Modelled from the spec: \<^verbatim>\<open>NotificationsService.createNotification\<close> is not part of the
  sources at hand. The spec describes it as a sink that receives fire-and-forget requests;
  a request is appended to the queue.
\<close>

definition createNotification :: "db \<Rightarrow> Notification \<Rightarrow> db" where
  "createNotification s n = s\<lparr>notifications := notifications s @ [n]\<rparr>"

subsection \<open>The appointment repository\<close>

text \<open>
  The ORM's repository over the appointment table. A query with \<^verbatim>\<open>relations\<close> joins the
  named relations on their foreign keys; a relation whose row is missing is null.
\<close>

definition load_relations :: "db \<Rightarrow> string list \<Rightarrow> Appointment \<Rightarrow> Appointment" where
  "load_relations s rels a =
     a\<lparr>a_client := (if ''client'' \<in> set rels then users s (a_clientId a) else None),
       a_mechanic := (if ''mechanic'' \<in> set rels then users s (a_mechanicId a) else None),
       a_vehicle := (if ''vehicle'' \<in> set rels then vehicles s (a_vehicleId a) else None),
       a_schedule := (if ''schedule'' \<in> set rels then schedules s (a_scheduleId a) else None)\<rparr>"

text \<open>Only the columns of an entity are stored.\<close>

definition columns :: "Appointment \<Rightarrow> Appointment" where
  "columns a = a\<lparr>a_client := None, a_mechanic := None, a_vehicle := None, a_schedule := None\<rparr>"

definition repo_findOne :: "db \<Rightarrow> nat \<Rightarrow> string list \<Rightarrow> Appointment option" where
  "repo_findOne s i rels =
     map_option (load_relations s rels) (find (\<lambda>a. a_id a = i) (appointments s))"

text \<open>
  \<^verbatim>\<open>save\<close> of an entity made by \<^verbatim>\<open>create\<close>, which has no id yet: the row is inserted under
  the next generated key and the entity is returned with that key.
\<close>

definition repo_save_new :: "db \<Rightarrow> Appointment \<Rightarrow> Appointment \<times> db" where
  "repo_save_new s a =
     (let saved = a\<lparr>a_id := nextAppointmentId s\<rparr>
      in (saved,
          s\<lparr>appointments := appointments s @ [columns saved],
            nextAppointmentId := Suc (nextAppointmentId s)\<rparr>))"

text \<open>\<^verbatim>\<open>save\<close> of a loaded entity: its row is overwritten, the entity is returned as it is.\<close>

definition repo_save :: "db \<Rightarrow> Appointment \<Rightarrow> Appointment \<times> db" where
  "repo_save s a =
     (a, s\<lparr>appointments :=
              map (\<lambda>row. if a_id row = a_id a then columns a else row) (appointments s)\<rparr>)"

definition repo_delete :: "db \<Rightarrow> nat \<Rightarrow> db" where
  "repo_delete s i = s\<lparr>appointments := filter (\<lambda>row. a_id row \<noteq> i) (appointments s)\<rparr>"

subsection \<open>AppointmentsService.createAppointment\<close>

text \<open>The id of an entity that was never saved; \<^verbatim>\<open>save\<close> replaces it by the generated key.\<close>

definition undefined_id :: nat where
  "undefined_id = 0"

definition created_message :: "Vehicle \<Rightarrow> string \<Rightarrow> string \<Rightarrow> string" where
  "created_message vehicle date hour =
     ''El cliente ha agendado una cita para el veh'' @ [CHR 0xED] @ ''culo '' @
     v_licensePlate vehicle @ '' el '' @ date @ '' a las '' @ hour"

definition createAppointment ::
  "db \<Rightarrow> nat \<Rightarrow> CreateAppointmentDto \<Rightarrow> (error + Appointment) \<times> db" where
  "createAppointment s clientId dto =
     (case findByIdOrThrow s (c_mechanicId dto) of
        Inl e \<Rightarrow> (Inl e, s)
      | Inr mechanic \<Rightarrow>
          if u_role mechanic \<noteq> ROLE_MECHANIC
          then (Inl (BadRequestException
                  (''El usuario seleccionado no es un mec'' @ [CHR 0xE1] @ ''nico'')), s)
          else
            (case vehicles_findOne s (c_vehicleId dto) of
               Inl e \<Rightarrow> (Inl e, s)
             | Inr vehicle \<Rightarrow>
                 if v_clientId vehicle \<noteq> clientId
                 then (Inl (ForbiddenException
                         (''No puedes agendar citas para veh'' @ [CHR 0xED] @
                          ''culos que no te pertenecen'')), s)
                 else
                   (case findByIdOrThrow s clientId of
                      Inl e \<Rightarrow> (Inl e, s)
                    | Inr client \<Rightarrow>
                        (case getScheduleById s (c_scheduleId dto) of
                           Inl e \<Rightarrow> (Inl e, s)
                         | Inr schedule \<Rightarrow>
                             if c_hour dto \<notin> set (availableHours schedule)
                             then (Inl (BadRequestException
                                     (''La hora seleccionada no est'' @ [CHR 0xE1] @
                                      '' disponible'')), s)
                             else
                               (let appointment =
                                      \<lparr>a_id = undefined_id, a_clientId = clientId,
                                       a_mechanicId = c_mechanicId dto,
                                       a_vehicleId = c_vehicleId dto,
                                       a_scheduleId = c_scheduleId dto,
                                       a_hour = c_hour dto, a_date = c_date dto,
                                       a_description = c_description dto,
                                       a_status = PENDING, a_rejectionReason = None,
                                       a_client = None, a_mechanic = None,
                                       a_vehicle = None, a_schedule = None\<rparr>;
                                    (savedAppointment, s1) = repo_save_new s appointment
                                in (case removeHourFromSchedule s1 (c_scheduleId dto) (c_hour dto) of
                                      (Inl e, s2) \<Rightarrow> (Inl e, s2)
                                    | (Inr u, s2) \<Rightarrow>
                                        (let s3 = createNotification s2
                                               \<lparr>n_userId = c_mechanicId dto,
                                                n_type = APPOINTMENT_CREATED,
                                                n_title = ''Nueva Cita Agendada'',
                                                n_message = created_message vehicle
                                                  (c_date dto) (c_hour dto),
                                                n_appointmentId = a_id savedAppointment\<rparr>
                                         in (Inr (savedAppointment
                                                   \<lparr>a_client := Some client,
                                                    a_mechanic := Some mechanic,
                                                    a_vehicle := Some vehicle,
                                                    a_schedule := Some schedule\<rparr>),
                                             s3))))))))"

subsection \<open>AppointmentsService.findAll\<close>

record FindOptionsWhere =
  w_clientId :: "nat option"
  w_mechanicId :: "nat option"
  w_status :: "string option"
  w_date :: "string option"

text \<open>A row satisfies a \<^verbatim>\<open>where\<close> object when it equals it on every property that is set.\<close>

definition matches :: "FindOptionsWhere \<Rightarrow> Appointment \<Rightarrow> bool" where
  "matches w a =
     ((case w_clientId w of None \<Rightarrow> True | Some c \<Rightarrow> a_clientId a = c) \<and>
      (case w_mechanicId w of None \<Rightarrow> True | Some m \<Rightarrow> a_mechanicId a = m) \<and>
      (case w_status w of None \<Rightarrow> True | Some st \<Rightarrow> status_value (a_status a) = st) \<and>
      (case w_date w of None \<Rightarrow> True | Some d \<Rightarrow> a_date a = d))"

text \<open>
  \<^verbatim>\<open>find\<close> with \<^verbatim>\<open>order: { date: 'ASC', hour: 'ASC' }\<close>: the matching rows, their relations
  loaded, sorted by date and then by hour (both are strings, compared lexicographically).
\<close>

definition repo_find :: "db \<Rightarrow> FindOptionsWhere \<Rightarrow> string list \<Rightarrow> Appointment list" where
  "repo_find s w rels =
     sort_key (\<lambda>a. (a_date a, a_hour a))
       (map (load_relations s rels) (filter (matches w) (appointments s)))"

text \<open>The \<^verbatim>\<open>where\<close> object that \<^verbatim>\<open>findAll\<close> builds, assignment by assignment.\<close>

definition findAll_where ::
  "nat \<Rightarrow> string \<Rightarrow> string option \<Rightarrow> nat option \<Rightarrow> nat option \<Rightarrow> string option
     \<Rightarrow> FindOptionsWhere" where
  "findAll_where userId userRole status clientId mechanicId date =
     (let w0 = \<lparr>w_clientId = None, w_mechanicId = None, w_status = None, w_date = None\<rparr>;
          w1 = (if userRole = ROLE_CLIENT then w0\<lparr>w_clientId := Some userId\<rparr>
                else if userRole = ROLE_MECHANIC then w0\<lparr>w_mechanicId := Some userId\<rparr>
                else w0);
          w2 = (if truthy_number clientId \<and> userRole \<noteq> ROLE_CLIENT
                then w1\<lparr>w_clientId := clientId\<rparr> else w1);
          w3 = (if truthy_number mechanicId \<and> userRole \<noteq> ROLE_MECHANIC
                then w2\<lparr>w_mechanicId := mechanicId\<rparr> else w2);
          w4 = (if truthy_string status then w3\<lparr>w_status := status\<rparr> else w3);
          w5 = (if truthy_string date then w4\<lparr>w_date := date\<rparr> else w4)
      in w5)"

definition findAll ::
  "db \<Rightarrow> nat \<Rightarrow> string \<Rightarrow> string option \<Rightarrow> nat option \<Rightarrow> nat option \<Rightarrow> string option
     \<Rightarrow> Appointment list" where
  "findAll s userId userRole status clientId mechanicId date =
     repo_find s (findAll_where userId userRole status clientId mechanicId date)
       [''client'', ''mechanic'', ''vehicle'']"

subsection \<open>Status changes\<close>

definition all_relations :: "string list" where
  "all_relations = [''client'', ''mechanic'', ''vehicle'', ''schedule'']"

definition updateAppointment ::
  "db \<Rightarrow> nat \<Rightarrow> nat \<Rightarrow> string \<Rightarrow> UpdateAppointmentDto \<Rightarrow> (error + Appointment) \<times> db" where
  "updateAppointment s appointmentId userId userRole dto =
     (case repo_findOne s appointmentId all_relations of
        None \<Rightarrow> (Inl (NotFoundException ''Cita no encontrada''), s)
      | Some appointment \<Rightarrow>
          if userRole = ROLE_MECHANIC \<and> a_mechanicId appointment \<noteq> userId
          then (Inl (ForbiddenException
                  ''No puedes modificar citas que no te han sido asignadas''), s)
          else if userRole = ROLE_CLIENT \<and> a_clientId appointment \<noteq> userId
          then (Inl (ForbiddenException ''No puedes modificar citas que no te pertenecen''), s)
          else if a_status appointment \<noteq> PENDING
          then (Inl (BadRequestException ''Only pending appointments can be modified''), s)
          else if d_status dto = Some REJECTED \<and> \<not> truthy_string (d_rejectionReason dto)
          then (Inl (BadRequestException
                  ''Rejection reason is required when rejecting an appointment''), s)
          else
            (let a1 = (case d_status dto of
                         Some status \<Rightarrow> appointment\<lparr>a_status := status\<rparr>
                       | None \<Rightarrow> appointment);
                 a2 = (if truthy_string (d_rejectionReason dto)
                       then a1\<lparr>a_rejectionReason := d_rejectionReason dto\<rparr> else a1);
                 (saved, s1) = repo_save s a2
             in (Inr saved, s1)))"

definition updateAppointmentStatus ::
  "db \<Rightarrow> nat \<Rightarrow> nat \<Rightarrow> UpdateAppointmentDto \<Rightarrow> (error + Appointment) \<times> db" where
  "updateAppointmentStatus s appointmentId mechanicId dto =
     (case repo_findOne s appointmentId all_relations of
        None \<Rightarrow> (Inl (NotFoundException ''Cita no encontrada''), s)
      | Some appointment \<Rightarrow>
          if a_mechanicId appointment \<noteq> mechanicId
          then (Inl (ForbiddenException
                  ''No puedes modificar citas que no te han sido asignadas''), s)
          else if a_status appointment \<noteq> PENDING
          then (Inl (BadRequestException ''Only pending appointments can be modified''), s)
          else if d_status dto = Some REJECTED \<and> \<not> truthy_string (d_rejectionReason dto)
          then (Inl (BadRequestException
                  ''Rejection reason is required when rejecting an appointment''), s)
          else
            (let a1 = (case d_status dto of
                         Some status \<Rightarrow> appointment\<lparr>a_status := status\<rparr>
                       | None \<Rightarrow> appointment);
                 a2 = (if truthy_string (d_rejectionReason dto)
                       then a1\<lparr>a_rejectionReason := d_rejectionReason dto\<rparr> else a1);
                 (saved, s1) = repo_save s a2
             in (Inr saved, s1)))"

definition acceptAppointment :: "db \<Rightarrow> nat \<Rightarrow> nat \<Rightarrow> (error + Appointment) \<times> db" where
  "acceptAppointment s appointmentId mechanicId =
     (case repo_findOne s appointmentId all_relations of
        None \<Rightarrow> (Inl (NotFoundException ''Appointment not found''), s)
      | Some appointment \<Rightarrow>
          if a_mechanicId appointment \<noteq> mechanicId
          then (Inl (ForbiddenException
                  ''You cannot modify appointments that have not been assigned to you''), s)
          else if a_status appointment \<noteq> PENDING
          then (Inl (BadRequestException ''Only pending appointments can be accepted''), s)
          else
            (let (savedAppointment, s1) = repo_save s (appointment\<lparr>a_status := ACCEPTED\<rparr>)
             in (case a_vehicle savedAppointment of
                   None \<Rightarrow> (Inl TypeError, s1)
                 | Some vehicle \<Rightarrow>
                     (Inr savedAppointment,
                      createNotification s1
                        \<lparr>n_userId = a_clientId savedAppointment,
                         n_type = APPOINTMENT_ACCEPTED,
                         n_title = ''Cita Aceptada'',
                         n_message = ''Tu cita para el veh'' @ [CHR 0xED] @ ''culo '' @
                           v_licensePlate vehicle @ '' ha sido aceptada por el mec'' @
                           [CHR 0xE1] @ ''nico'',
                         n_appointmentId = a_id savedAppointment\<rparr>))))"

definition rejected_message :: "string \<Rightarrow> string" where
  "rejected_message reason =
     ''Tu cita ha sido rechazada. Raz'' @ [CHR 0xF3] @ ''n: '' @ reason"

definition rejectAppointment ::
  "db \<Rightarrow> nat \<Rightarrow> nat \<Rightarrow> RejectAppointmentDto \<Rightarrow> (error + Appointment) \<times> db" where
  "rejectAppointment s appointmentId mechanicId dto =
     (case repo_findOne s appointmentId all_relations of
        None \<Rightarrow> (Inl (NotFoundException ''Cita no encontrada''), s)
      | Some appointment \<Rightarrow>
          if a_mechanicId appointment \<noteq> mechanicId
          then (Inl (ForbiddenException
                  ''No puedes modificar citas que no te han sido asignadas''), s)
          else if a_status appointment \<noteq> PENDING
          then (Inl (BadRequestException
                  ''Solo las citas pendientes pueden ser rechazadas''), s)
          else
            (let (savedAppointment, s1) =
                   repo_save s (appointment\<lparr>a_status := REJECTED,
                                  a_rejectionReason := Some (r_rejectionReason dto)\<rparr>)
             in (case addHourToSchedule s1 (a_scheduleId savedAppointment)
                        (a_hour savedAppointment) of
                   (Inl e, s2) \<Rightarrow> (Inl e, s2)
                 | (Inr u, s2) \<Rightarrow>
                     (Inr savedAppointment,
                      createNotification s2
                        \<lparr>n_userId = a_clientId savedAppointment,
                         n_type = APPOINTMENT_REJECTED,
                         n_title = ''Cita Rechazada'',
                         n_message = rejected_message (r_rejectionReason dto),
                         n_appointmentId = a_id savedAppointment\<rparr>))))"

subsection \<open>Reading and cancelling one appointment\<close>

definition getAppointmentById :: "db \<Rightarrow> nat \<Rightarrow> error + Appointment" where
  "getAppointmentById s i =
     (case repo_findOne s i all_relations of
        None \<Rightarrow> Inl (NotFoundException ''Cita no encontrada'')
      | Some appointment \<Rightarrow> Inr appointment)"

definition deleteAppointment :: "db \<Rightarrow> nat \<Rightarrow> nat \<Rightarrow> (error + unit) \<times> db" where
  "deleteAppointment s i userId =
     (case getAppointmentById s i of
        Inl e \<Rightarrow> (Inl e, s)
      | Inr appointment \<Rightarrow>
          if a_clientId appointment \<noteq> userId
          then (Inl (ForbiddenException ''No puedes cancelar citas que no te pertenecen''), s)
          else if a_status appointment \<noteq> PENDING \<and> a_status appointment \<noteq> ACCEPTED
          then (Inl (BadRequestException
                  ''Solo las citas pendientes o aceptadas pueden ser canceladas''), s)
          else addHourToSchedule (repo_delete s i) (a_scheduleId appointment)
                 (a_hour appointment))"

subsection \<open>The controller's routes by id\<close>

text \<open>
  The claims of the bearer token, which the class-level guard puts on every request.
  \<^verbatim>\<open>toSafeAppointmentWithSimpleClient\<close> is a projection defined outside the sources at hand,
  so the routes take it as a parameter.
\<close>

record JwtPayload =
  j_sub :: nat
  j_email :: string
  j_role :: string

record 'a ApiResponse =
  success :: bool
  message :: string
  data :: 'a


text \<open>\<^verbatim>\<open>PATCH /appointments/:id\<close>.\<close>

definition controller_updateAppointment ::
  "(Appointment \<Rightarrow> 'v) \<Rightarrow> db \<Rightarrow> JwtPayload \<Rightarrow> nat \<Rightarrow> UpdateAppointmentDto
     \<Rightarrow> (error + 'v ApiResponse) \<times> db" where
  "controller_updateAppointment toSafe s user i dto =
     (case updateAppointment s i (j_sub user) (j_role user) dto of
        (Inl e, s1) \<Rightarrow> (Inl e, s1)
      | (Inr appointment, s1) \<Rightarrow>
          (Inr \<lparr>success = True, message = ''Cita actualizada exitosamente'',
                data = toSafe appointment\<rparr>, s1))"

subsection \<open>Operations as data, and the key invariant of the appointment table\<close>

text \<open>Every method of the service that writes, as a request that can be run on a state.\<close>

datatype operation =
    CreateAppointment nat CreateAppointmentDto
  | UpdateAppointment nat nat string UpdateAppointmentDto
  | UpdateAppointmentStatus nat nat UpdateAppointmentDto
  | AcceptAppointment nat nat
  | RejectAppointment nat nat RejectAppointmentDto
  | DeleteAppointment nat nat

fun run :: "db \<Rightarrow> operation \<Rightarrow> db" where
  "run s (CreateAppointment clientId dto) = snd (createAppointment s clientId dto)"
| "run s (UpdateAppointment i userId userRole dto) = snd (updateAppointment s i userId userRole dto)"
| "run s (UpdateAppointmentStatus i mechanicId dto) = snd (updateAppointmentStatus s i mechanicId dto)"
| "run s (AcceptAppointment i mechanicId) = snd (acceptAppointment s i mechanicId)"
| "run s (RejectAppointment i mechanicId dto) = snd (rejectAppointment s i mechanicId dto)"
| "run s (DeleteAppointment i userId) = snd (deleteAppointment s i userId)"

text \<open>The stored status of the appointment with a given id, if there is one.\<close>

definition status_of :: "db \<Rightarrow> nat \<Rightarrow> AppointmentStatus option" where
  "status_of s i = map_option a_status (find (\<lambda>a. a_id a = i) (appointments s))"

text \<open>
  The primary key of the appointment table: ids are unique and were all generated, so
  they lie below the counter.
\<close>

definition primary_key :: "db \<Rightarrow> bool" where
  "primary_key s =
     (distinct (map a_id (appointments s)) \<and>
      list_all (\<lambda>a. a_id a < nextAppointmentId s) (appointments s))"

text \<open>The status changes the data model allows: none, or from pending to a decision.\<close>

definition allowed_transition :: "AppointmentStatus \<Rightarrow> AppointmentStatus \<Rightarrow> bool" where
  "allowed_transition st st' = (st' = st \<or> st = PENDING \<and> (st' = ACCEPTED \<or> st' = REJECTED))"

text \<open>Whether a request is the cancellation of a given appointment, or a booking.\<close>

fun cancels :: "operation \<Rightarrow> nat \<Rightarrow> bool" where
  "cancels (DeleteAppointment j userId) i = (i = j)"
| "cancels operation i = False"

fun books :: "operation \<Rightarrow> bool" where
  "books (CreateAppointment clientId dto) = True"
| "books operation = False"

text \<open>The stored row of the appointment with a given id, if there is one.\<close>

definition row_of :: "db \<Rightarrow> nat \<Rightarrow> Appointment option" where
  "row_of s i = find (\<lambda>a. a_id a = i) (appointments s)"

text \<open>
  The actor check of the generic update: a mechanic who is not the assigned mechanic, or a
  client who is not the owning client.
\<close>

definition actor_mismatch :: "Appointment \<Rightarrow> nat \<Rightarrow> string \<Rightarrow> bool" where
  "actor_mismatch a userId userRole =
     (userRole = ROLE_MECHANIC \<and> a_mechanicId a \<noteq> userId \<or>
      userRole = ROLE_CLIENT \<and> a_clientId a \<noteq> userId)"

text \<open>
  The scope of a listing: the requester's role pins the client or the mechanic, and a
  truthy id filter restricts the field that the role does not pin.
\<close>

definition in_scope :: "nat \<Rightarrow> string \<Rightarrow> nat option \<Rightarrow> nat option \<Rightarrow> Appointment \<Rightarrow> bool" where
  "in_scope userId userRole clientId mechanicId a =
     ((if userRole = ROLE_CLIENT then a_clientId a = userId
       else if truthy_number clientId then Some (a_clientId a) = clientId else True) \<and>
      (if userRole = ROLE_MECHANIC then a_mechanicId a = userId
       else if truthy_number mechanicId then Some (a_mechanicId a) = mechanicId else True))"

subsection \<open>The validations of a booking, as predicates on the state\<close>

definition mechanic_valid :: "db \<Rightarrow> CreateAppointmentDto \<Rightarrow> bool" where
  "mechanic_valid s dto =
     (case users s (c_mechanicId dto) of
        None \<Rightarrow> False
      | Some mechanic \<Rightarrow> u_role mechanic = ROLE_MECHANIC)"

definition vehicle_valid :: "db \<Rightarrow> nat \<Rightarrow> CreateAppointmentDto \<Rightarrow> bool" where
  "vehicle_valid s clientId dto =
     (case vehicles s (c_vehicleId dto) of
        None \<Rightarrow> False
      | Some vehicle \<Rightarrow> v_clientId vehicle = clientId)"

definition hour_available :: "db \<Rightarrow> CreateAppointmentDto \<Rightarrow> bool" where
  "hour_available s dto =
     (case schedules s (c_scheduleId dto) of
        None \<Rightarrow> False
      | Some schedule \<Rightarrow> c_hour dto \<in> set (availableHours schedule))"

subsection \<open>Example states\<close>

text \<open>
  A garage with two clients (1 and 3), one mechanic (2), a vehicle of each client and one
  schedule of the mechanic; and the request of client 1 for the 10:00 slot.
\<close>

definition garage :: db where
  "garage =
     \<lparr>users = [1 \<mapsto> \<lparr>u_name = ''Ana'', u_role = ROLE_CLIENT\<rparr>,
               2 \<mapsto> \<lparr>u_name = ''Beto'', u_role = ROLE_MECHANIC\<rparr>,
               3 \<mapsto> \<lparr>u_name = ''Caro'', u_role = ROLE_CLIENT\<rparr>],
      vehicles = [10 \<mapsto> \<lparr>v_clientId = 1, v_licensePlate = ''ABC123''\<rparr>,
                  11 \<mapsto> \<lparr>v_clientId = 3, v_licensePlate = ''XYZ789''\<rparr>],
      schedules = [20 \<mapsto> \<lparr>s_mechanicId = 2, s_date = ''2026-01-22'',
                            availableHours = [''09:00'', ''10:00'']\<rparr>],
      appointments = [],
      nextAppointmentId = 1,
      notifications = []\<rparr>"

definition booking :: CreateAppointmentDto where
  "booking =
     \<lparr>c_mechanicId = 2, c_vehicleId = 10, c_scheduleId = 20, c_hour = ''10:00'',
      c_date = ''2026-01-22'', c_description = ''Cambio de aceite''\<rparr>"

definition stored ::
  "nat \<Rightarrow> nat \<Rightarrow> nat \<Rightarrow> string \<Rightarrow> string \<Rightarrow> AppointmentStatus \<Rightarrow> string option \<Rightarrow> Appointment" where
  "stored i clientId vehicleId date hour status reason =
     \<lparr>a_id = i, a_clientId = clientId, a_mechanicId = 2, a_vehicleId = vehicleId,
      a_scheduleId = 20, a_hour = hour, a_date = date,
      a_description = ''Cambio de aceite'', a_status = status, a_rejectionReason = reason,
      a_client = None, a_mechanic = None, a_vehicle = None, a_schedule = None\<rparr>"

text \<open>The garage once that request is booked: appointment 1 is pending, 10:00 is taken.\<close>

definition garage_booked :: db where
  "garage_booked =
     garage\<lparr>schedules := [20 \<mapsto> \<lparr>s_mechanicId = 2, s_date = ''2026-01-22'',
                                    availableHours = [''09:00'']\<rparr>],
            appointments := [stored 1 1 10 ''2026-01-22'' ''10:00'' PENDING None],
            nextAppointmentId := 2,
            notifications :=
              [\<lparr>n_userId = 2, n_type = APPOINTMENT_CREATED, n_title = ''Nueva Cita Agendada'',
                n_message = created_message \<lparr>v_clientId = 1, v_licensePlate = ''ABC123''\<rparr>
                              ''2026-01-22'' ''10:00'',
                n_appointmentId = 1\<rparr>]\<rparr>"

text \<open>A garage with three appointments of the mechanic, in each status, for listings.\<close>

definition garage_history :: db where
  "garage_history =
     garage\<lparr>appointments :=
              [stored 1 1 10 ''2026-01-23'' ''09:00'' PENDING None,
               stored 2 3 11 ''2026-01-22'' ''10:00'' ACCEPTED None,
               stored 3 1 10 ''2026-01-22'' ''09:00'' REJECTED (Some ''Sin repuestos'')],
            nextAppointmentId := 4\<rparr>"

definition reject_dto :: UpdateAppointmentDto where
  "reject_dto = \<lparr>d_status = Some REJECTED, d_rejectionReason = Some ''Sin repuestos''\<rparr>"

definition accept_dto :: UpdateAppointmentDto where
  "accept_dto = \<lparr>d_status = Some ACCEPTED, d_rejectionReason = None\<rparr>"

text \<open>The three users of the garage as authenticated requesters.\<close>

definition ana :: JwtPayload where
  "ana = \<lparr>j_sub = 1, j_email = ''ana@example.com'', j_role = ROLE_CLIENT\<rparr>"

definition beto :: JwtPayload where
  "beto = \<lparr>j_sub = 2, j_email = ''beto@example.com'', j_role = ROLE_MECHANIC\<rparr>"

definition caro :: JwtPayload where
  "caro = \<lparr>j_sub = 3, j_email = ''caro@example.com'', j_role = ROLE_CLIENT\<rparr>"

section \<open>Properties\<close>

subsection \<open>Unfolding sets\<close>

lemmas example_defs =
  garage_def booking_def garage_booked_def garage_history_def stored_def reject_dto_def
  accept_dto_def ana_def beto_def caro_def ROLE_CLIENT_def ROLE_MECHANIC_def ROLE_ADMIN_def

lemmas create_defs =
  createAppointment_def findByIdOrThrow_def findById_def vehicles_findOne_def
  getScheduleById_def repo_save_new_def removeHourFromSchedule_def createNotification_def
  columns_def undefined_id_def

subsection \<open>Booking: the validations, one by one\<close>









lemma createAppointment_error_keeps_state:
  "fst (createAppointment s clientId dto) = Inl e \<Longrightarrow> snd (createAppointment s clientId dto) = s"
  by (auto simp: create_defs Let_def split: sum.splits option.splits if_splits prod.splits)




subsection \<open>Booking: failure is atomic, success has its effects in order\<close>

lemma createAppointment_fails:
  "\<not> mechanic_valid s dto \<or> \<not> vehicle_valid s clientId dto \<or>
   schedules s (c_scheduleId dto) = None \<or> \<not> hour_available s dto \<Longrightarrow>
   \<exists>e. fst (createAppointment s clientId dto) = Inl e"
  by (auto simp: create_defs mechanic_valid_def vehicle_valid_def hour_available_def Let_def
      split: option.splits sum.splits)

text \<open>
  Claim C9. Whenever a validation of \<^verbatim>\<open>createAppointment\<close> fails (the mechanic is missing
  or has another role, the vehicle is missing or not owned by the requester, the schedule
  is missing, the hour is unavailable) the call throws and the state is the one it
  started from: no appointment is persisted, the available hours are unchanged and no
  notification is enqueued. More generally, every error of the call leaves the state as it
  was.
\<close>

theorem createAppointment_atomic_on_failure:
  "(\<not> mechanic_valid s dto \<or> \<not> vehicle_valid s clientId dto \<or>
    schedules s (c_scheduleId dto) = None \<or> \<not> hour_available s dto \<longrightarrow>
      (\<exists>e. createAppointment s clientId dto = (Inl e, s))) \<and>
   (\<forall>e. fst (createAppointment s clientId dto) = Inl e \<longrightarrow>
      snd (createAppointment s clientId dto) = s)"
proof (intro conjI allI impI)
  assume "\<not> mechanic_valid s dto \<or> \<not> vehicle_valid s clientId dto \<or>
    schedules s (c_scheduleId dto) = None \<or> \<not> hour_available s dto"
  then obtain e where e: "fst (createAppointment s clientId dto) = Inl e"
    using createAppointment_fails by blast
  then have "snd (createAppointment s clientId dto) = s"
    by (rule createAppointment_error_keeps_state)
  with e have "createAppointment s clientId dto = (Inl e, s)"
    by (simp add: prod_eq_iff)
  then show "\<exists>e. createAppointment s clientId dto = (Inl e, s)" ..
next
  fix e
  assume "fst (createAppointment s clientId dto) = Inl e"
  then show "snd (createAppointment s clientId dto) = s"
    by (rule createAppointment_error_keeps_state)
qed

theorem createAppointment_atomic_on_failure_witness:
  "\<not> mechanic_valid garage (booking\<lparr>c_mechanicId := 3\<rparr>) \<and>
   snd (createAppointment garage 1 (booking\<lparr>c_mechanicId := 3\<rparr>)) = garage \<and>
   \<not> vehicle_valid garage 1 (booking\<lparr>c_vehicleId := 11\<rparr>) \<and>
   snd (createAppointment garage 1 (booking\<lparr>c_vehicleId := 11\<rparr>)) = garage \<and>
   schedules garage 21 = None \<and>
   snd (createAppointment garage 1 (booking\<lparr>c_scheduleId := 21\<rparr>)) = garage \<and>
   \<not> hour_available garage (booking\<lparr>c_hour := ''23:00''\<rparr>) \<and>
   createAppointment garage 1 (booking\<lparr>c_hour := ''23:00''\<rparr>) =
     (Inl (BadRequestException (''La hora seleccionada no est'' @ [CHR 0xE1] @ '' disponible'')),
      garage)"
  using createAppointment_atomic_on_failure [of garage "booking\<lparr>c_mechanicId := 3\<rparr>" 1]
    createAppointment_atomic_on_failure [of garage "booking\<lparr>c_vehicleId := 11\<rparr>" 1]
    createAppointment_atomic_on_failure [of garage "booking\<lparr>c_scheduleId := 21\<rparr>" 1]
    createAppointment_atomic_on_failure [of garage "booking\<lparr>c_hour := ''23:00''\<rparr>" 1]
  by (simp add: example_defs create_defs mechanic_valid_def vehicle_valid_def hour_available_def)

text \<open>
  Claim C3. A successful \<^verbatim>\<open>createAppointment\<close> went through these states, in this order:
  the new appointment, with the generated id and status \<open>pending\<close>, is appended to the
  table (\<open>s1\<close>); the requested hour is removed from the schedule (\<open>s2\<close>); a notification
  to the mechanic, of type \<open>APPOINTMENT_CREATED\<close> and tagged with the new id, is enqueued
  (\<open>s'\<close>). The returned appointment carries the client, mechanic, vehicle and schedule
  that the validations resolved. Afterwards the hour is not available in the schedule.
\<close>

theorem createAppointment_success_effects:
  assumes "createAppointment s clientId dto = (Inr a, s')"
  shows "\<exists>client mechanic vehicle schedule s1 s2.
     users s clientId = Some client \<and>
     users s (c_mechanicId dto) = Some mechanic \<and>
     vehicles s (c_vehicleId dto) = Some vehicle \<and>
     schedules s (c_scheduleId dto) = Some schedule \<and>
     a = \<lparr>a_id = nextAppointmentId s, a_clientId = clientId,
          a_mechanicId = c_mechanicId dto, a_vehicleId = c_vehicleId dto,
          a_scheduleId = c_scheduleId dto, a_hour = c_hour dto, a_date = c_date dto,
          a_description = c_description dto, a_status = PENDING, a_rejectionReason = None,
          a_client = Some client, a_mechanic = Some mechanic, a_vehicle = Some vehicle,
          a_schedule = Some schedule\<rparr> \<and>
     s1 = s\<lparr>appointments := appointments s @ [columns a],
            nextAppointmentId := Suc (nextAppointmentId s)\<rparr> \<and>
     removeHourFromSchedule s1 (c_scheduleId dto) (c_hour dto) = (Inr (), s2) \<and>
     s' = createNotification s2
            \<lparr>n_userId = c_mechanicId dto, n_type = APPOINTMENT_CREATED,
             n_title = ''Nueva Cita Agendada'',
             n_message = created_message vehicle (c_date dto) (c_hour dto),
             n_appointmentId = a_id a\<rparr> \<and>
     appointments s' = appointments s @ [columns a] \<and>
     a_status (last (appointments s')) = PENDING \<and>
     schedules s' = (schedules s)(c_scheduleId dto \<mapsto>
        schedule\<lparr>availableHours := removeAll (c_hour dto) (availableHours schedule)\<rparr>) \<and>
     c_hour dto \<notin> set (availableHours (the (schedules s' (c_scheduleId dto)))) \<and>
     notifications s' = notifications s @
        [\<lparr>n_userId = c_mechanicId dto, n_type = APPOINTMENT_CREATED,
          n_title = ''Nueva Cita Agendada'',
          n_message = created_message vehicle (c_date dto) (c_hour dto),
          n_appointmentId = a_id a\<rparr>]"
  using assms
  by (auto simp: create_defs Let_def split: option.splits sum.splits if_splits)

theorem createAppointment_success_effects_witness:
  "createAppointment garage 1 booking =
     (Inr ((stored 1 1 10 ''2026-01-22'' ''10:00'' PENDING None)
            \<lparr>a_client := users garage 1, a_mechanic := users garage 2,
             a_vehicle := vehicles garage 10, a_schedule := schedules garage 20\<rparr>),
      garage_booked) \<and>
   appointments garage_booked =
     appointments garage @ [stored 1 1 10 ''2026-01-22'' ''10:00'' PENDING None] \<and>
   ''10:00'' \<in> set (availableHours (the (schedules garage 20))) \<and>
   ''10:00'' \<notin> set (availableHours (the (schedules garage_booked 20))) \<and>
   map n_userId (notifications garage_booked) = [2] \<and>
   map n_appointmentId (notifications garage_booked) = [1]"
  using createAppointment_success_effects [of garage 1 booking
      "(stored 1 1 10 ''2026-01-22'' ''10:00'' PENDING None)
            \<lparr>a_client := users garage 1, a_mechanic := users garage 2,
             a_vehicle := vehicles garage 10, a_schedule := schedules garage 20\<rparr>"
      garage_booked]
  by (simp add: example_defs create_defs Let_def)

subsection \<open>Status update: the checks of updateAppointment\<close>

text \<open>
  Loading relations leaves the columns of a row as they are.
\<close>

lemma load_relations_columns [simp]:
  "a_id (load_relations s rels a) = a_id a"
  "a_clientId (load_relations s rels a) = a_clientId a"
  "a_mechanicId (load_relations s rels a) = a_mechanicId a"
  "a_vehicleId (load_relations s rels a) = a_vehicleId a"
  "a_scheduleId (load_relations s rels a) = a_scheduleId a"
  "a_hour (load_relations s rels a) = a_hour a"
  "a_date (load_relations s rels a) = a_date a"
  "a_description (load_relations s rels a) = a_description a"
  "a_status (load_relations s rels a) = a_status a"
  "a_rejectionReason (load_relations s rels a) = a_rejectionReason a"
  by (simp_all add: load_relations_def)

lemma repo_findOne_row_of:
  "repo_findOne s i rels = map_option (load_relations s rels) (row_of s i)"
  by (simp add: repo_findOne_def row_of_def)

lemmas update_defs =
  updateAppointment_def repo_findOne_row_of repo_save_def columns_def actor_mismatch_def

lemmas eval_defs =
  repo_findOne_def row_of_def load_relations_def all_relations_def repo_save_def columns_def
  repo_delete_def addHourToSchedule_def removeHourFromSchedule_def createNotification_def
  actor_mismatch_def status_of_def

lemma find_id: "find (\<lambda>a. a_id a = i) xs = Some x \<Longrightarrow> a_id x = i"
  by (induction xs) (auto split: if_splits)

lemma find_map_replace:
  "find (\<lambda>a. a_id a = i) xs = Some x \<Longrightarrow> a_id y = i \<Longrightarrow>
   find (\<lambda>a. a_id a = i) (map (\<lambda>row. if a_id row = i then y else row) xs) = Some y"
  by (induction xs) (auto split: if_splits)

lemma updateAppointment_not_found:
  "row_of s i = None \<Longrightarrow>
   updateAppointment s i userId userRole dto = (Inl (NotFoundException ''Cita no encontrada''), s)"
  by (simp add: update_defs)

lemma updateAppointment_forbidden:
  "row_of s i = Some row \<Longrightarrow> actor_mismatch row userId userRole \<Longrightarrow>
   \<exists>m. updateAppointment s i userId userRole dto = (Inl (ForbiddenException m), s)"
  by (auto simp: update_defs)

lemma updateAppointment_not_pending:
  "row_of s i = Some row \<Longrightarrow> \<not> actor_mismatch row userId userRole \<Longrightarrow>
   a_status row \<noteq> PENDING \<Longrightarrow>
   updateAppointment s i userId userRole dto =
     (Inl (BadRequestException ''Only pending appointments can be modified''), s)"
  by (auto simp: update_defs)

lemma updateAppointment_reason_required:
  "row_of s i = Some row \<Longrightarrow> \<not> actor_mismatch row userId userRole \<Longrightarrow>
   a_status row = PENDING \<Longrightarrow> d_status dto = Some REJECTED \<Longrightarrow>
   \<not> truthy_string (d_rejectionReason dto) \<Longrightarrow>
   updateAppointment s i userId userRole dto =
     (Inl (BadRequestException
        ''Rejection reason is required when rejecting an appointment''), s)"
  by (auto simp: update_defs)

lemma repo_save_row_of:
  "row_of s i = Some row \<Longrightarrow> a_id a = i \<Longrightarrow>
   row_of (snd (repo_save s a)) i = Some (columns a)"
  using find_map_replace [of i "appointments s" row "columns a"]
  by (simp add: repo_save_def row_of_def columns_def)

lemma repo_save_fst [simp]: "fst (repo_save s a) = a"
  by (simp add: repo_save_def)

lemma row_of_id: "row_of s i = Some row \<Longrightarrow> a_id row = i"
  unfolding row_of_def by (rule find_id)

lemma updateAppointment_saves:
  assumes "row_of s i = Some row" "\<not> actor_mismatch row userId userRole"
    "a_status row = PENDING"
    "\<not> (d_status dto = Some REJECTED \<and> \<not> truthy_string (d_rejectionReason dto))"
  shows "\<exists>saved. updateAppointment s i userId userRole dto = (Inr saved, snd (repo_save s saved)) \<and>
           a_id saved = i \<and>
           a_status saved = (case d_status dto of Some status \<Rightarrow> status | None \<Rightarrow> PENDING) \<and>
           a_rejectionReason saved =
             (if truthy_string (d_rejectionReason dto) then d_rejectionReason dto
              else a_rejectionReason row)"
proof -
  have i: "a_id row = i"
    using assms(1) by (rule row_of_id)
  show ?thesis
  proof (cases "d_status dto")
    case None
    with assms i show ?thesis
      by (simp add: updateAppointment_def repo_findOne_row_of actor_mismatch_def Let_def
          split_beta)
  next
    case (Some status)
    with assms i show ?thesis
      by (simp add: updateAppointment_def repo_findOne_row_of actor_mismatch_def Let_def
          split_beta)
  qed
qed

lemma updateAppointment_persists_reason:
  assumes "row_of s i = Some row" "\<not> actor_mismatch row userId userRole"
    "a_status row = PENDING" "d_rejectionReason dto = Some reason" "reason \<noteq> []"
  shows "\<exists>saved s'. updateAppointment s i userId userRole dto = (Inr saved, s') \<and>
           a_rejectionReason saved = Some reason \<and>
           map_option a_rejectionReason (row_of s' i) = Some (Some reason)"
proof -
  have "\<not> (d_status dto = Some REJECTED \<and> \<not> truthy_string (d_rejectionReason dto))"
    using assms(4,5) by simp
  from updateAppointment_saves [OF assms(1-3) this]
  obtain saved where saved:
    "updateAppointment s i userId userRole dto = (Inr saved, snd (repo_save s saved))"
    "a_id saved = i"
    "a_rejectionReason saved =
       (if truthy_string (d_rejectionReason dto) then d_rejectionReason dto
        else a_rejectionReason row)"
    by blast
  have reason: "a_rejectionReason saved = Some reason"
    using saved(3) assms(4,5) by simp
  have "row_of (snd (repo_save s saved)) i = Some (columns saved)"
    using assms(1) saved(2) by (rule repo_save_row_of)
  then have "map_option a_rejectionReason (row_of (snd (repo_save s saved)) i) =
      Some (Some reason)"
    using reason by (simp add: columns_def)
  with saved(1) reason show ?thesis by blast
qed

lemma updateAppointment_persists_status:
  assumes "row_of s i = Some row" "\<not> actor_mismatch row userId userRole"
    "a_status row = PENDING" "d_status dto = Some status"
    "status = REJECTED \<longrightarrow> truthy_string (d_rejectionReason dto)"
  shows "\<exists>saved s'. updateAppointment s i userId userRole dto = (Inr saved, s') \<and>
           a_status saved = status \<and> status_of s' i = Some status"
proof -
  have "\<not> (d_status dto = Some REJECTED \<and> \<not> truthy_string (d_rejectionReason dto))"
    using assms(4,5) by auto
  from updateAppointment_saves [OF assms(1-3) this]
  obtain saved where saved:
    "updateAppointment s i userId userRole dto = (Inr saved, snd (repo_save s saved))"
    "a_id saved = i"
    "a_status saved = (case d_status dto of Some status \<Rightarrow> status | None \<Rightarrow> PENDING)"
    by blast
  have st: "a_status saved = status"
    using saved(3) assms(4) by simp
  have "row_of (snd (repo_save s saved)) i = Some (columns saved)"
    using assms(1) saved(2) by (rule repo_save_row_of)
  then have "status_of (snd (repo_save s saved)) i = Some status"
    using st by (simp add: status_of_def row_of_def columns_def)
  with saved(1) st show ?thesis by blast
qed

text \<open>
  Claim C4. \<^verbatim>\<open>updateAppointment\<close> checks its preconditions in this order, and a failed
  check leaves the state as it was: the appointment exists, else NotFound; the actor
  matches (a mechanic must be the assigned mechanic, a client the owning client), else an
  authorization error; the current status is \<open>pending\<close>, else the state error "Only
  pending appointments can be modified"; if the target status is \<open>rejected\<close>, a
  non-empty rejection reason is present, else a validation error. No conjunct assumes
  anything about a later check. When the first three hold and a non-empty reason is
  given, the update succeeds and the stored row carries the reason verbatim; and whenever
  all four hold the update succeeds.
\<close>

theorem updateAppointment_checks_in_order:
  "(row_of s i = None \<longrightarrow>
      updateAppointment s i userId userRole dto =
        (Inl (NotFoundException ''Cita no encontrada''), s)) \<and>
   (\<forall>row. row_of s i = Some row \<and> actor_mismatch row userId userRole \<longrightarrow>
      (\<exists>m. updateAppointment s i userId userRole dto = (Inl (ForbiddenException m), s))) \<and>
   (\<forall>row. row_of s i = Some row \<and> \<not> actor_mismatch row userId userRole \<and>
        a_status row \<noteq> PENDING \<longrightarrow>
      updateAppointment s i userId userRole dto =
        (Inl (BadRequestException ''Only pending appointments can be modified''), s)) \<and>
   (\<forall>row. row_of s i = Some row \<and> \<not> actor_mismatch row userId userRole \<and>
        a_status row = PENDING \<and> d_status dto = Some REJECTED \<and>
        \<not> truthy_string (d_rejectionReason dto) \<longrightarrow>
      updateAppointment s i userId userRole dto =
        (Inl (BadRequestException
           ''Rejection reason is required when rejecting an appointment''), s)) \<and>
   (\<forall>row reason. row_of s i = Some row \<and> \<not> actor_mismatch row userId userRole \<and>
        a_status row = PENDING \<and> d_rejectionReason dto = Some reason \<and> reason \<noteq> [] \<longrightarrow>
      (\<exists>saved s'. updateAppointment s i userId userRole dto = (Inr saved, s') \<and>
         a_rejectionReason saved = Some reason \<and>
         map_option a_rejectionReason (row_of s' i) = Some (Some reason))) \<and>
   (\<forall>row. row_of s i = Some row \<and> \<not> actor_mismatch row userId userRole \<and>
        a_status row = PENDING \<and>
        \<not> (d_status dto = Some REJECTED \<and> \<not> truthy_string (d_rejectionReason dto)) \<longrightarrow>
      (\<exists>saved s'. updateAppointment s i userId userRole dto = (Inr saved, s')))"
proof (intro conjI allI impI)
  assume "row_of s i = None"
  then show "updateAppointment s i userId userRole dto =
        (Inl (NotFoundException ''Cita no encontrada''), s)"
    by (rule updateAppointment_not_found)
next
  fix row
  assume "row_of s i = Some row \<and> actor_mismatch row userId userRole"
  then show "\<exists>m. updateAppointment s i userId userRole dto = (Inl (ForbiddenException m), s)"
    using updateAppointment_forbidden [of s i row userId userRole dto] by simp
next
  fix row
  assume "row_of s i = Some row \<and> \<not> actor_mismatch row userId userRole \<and>
        a_status row \<noteq> PENDING"
  then show "updateAppointment s i userId userRole dto =
        (Inl (BadRequestException ''Only pending appointments can be modified''), s)"
    using updateAppointment_not_pending [of s i row userId userRole dto] by simp
next
  fix row
  assume "row_of s i = Some row \<and> \<not> actor_mismatch row userId userRole \<and>
        a_status row = PENDING \<and> d_status dto = Some REJECTED \<and>
        \<not> truthy_string (d_rejectionReason dto)"
  then show "updateAppointment s i userId userRole dto =
        (Inl (BadRequestException
           ''Rejection reason is required when rejecting an appointment''), s)"
    using updateAppointment_reason_required [of s i row userId userRole dto] by simp
next
  fix row reason
  assume "row_of s i = Some row \<and> \<not> actor_mismatch row userId userRole \<and>
        a_status row = PENDING \<and> d_rejectionReason dto = Some reason \<and> reason \<noteq> []"
  then show "\<exists>saved s'. updateAppointment s i userId userRole dto = (Inr saved, s') \<and>
         a_rejectionReason saved = Some reason \<and>
         map_option a_rejectionReason (row_of s' i) = Some (Some reason)"
    using updateAppointment_persists_reason [of s i row userId userRole dto reason] by simp
next
  fix row
  assume a: "row_of s i = Some row \<and> \<not> actor_mismatch row userId userRole \<and>
        a_status row = PENDING \<and>
        \<not> (d_status dto = Some REJECTED \<and> \<not> truthy_string (d_rejectionReason dto))"
  then have "\<exists>saved. updateAppointment s i userId userRole dto =
      (Inr saved, snd (repo_save s saved))"
    using updateAppointment_saves [of s i row userId userRole dto] by blast
  then show "\<exists>saved s'. updateAppointment s i userId userRole dto = (Inr saved, s')"
    by blast
qed

theorem updateAppointment_checks_in_order_witness:
  "row_of garage_booked 9 = None \<and>
   updateAppointment garage_booked 9 2 ROLE_MECHANIC reject_dto =
     (Inl (NotFoundException ''Cita no encontrada''), garage_booked) \<and>
   actor_mismatch (stored 1 1 10 ''2026-01-22'' ''10:00'' PENDING None) 3 ROLE_CLIENT \<and>
   updateAppointment garage_booked 1 3 ROLE_CLIENT
       \<lparr>d_status = Some REJECTED, d_rejectionReason = None\<rparr> =
     (Inl (ForbiddenException ''No puedes modificar citas que no te pertenecen''),
      garage_booked) \<and>
   row_of garage_history 2 = Some (stored 2 3 11 ''2026-01-22'' ''10:00'' ACCEPTED None) \<and>
   updateAppointment garage_history 2 2 ROLE_MECHANIC
       \<lparr>d_status = Some REJECTED, d_rejectionReason = None\<rparr> =
     (Inl (BadRequestException ''Only pending appointments can be modified''),
      garage_history) \<and>
   row_of garage_booked 1 = Some (stored 1 1 10 ''2026-01-22'' ''10:00'' PENDING None) \<and>
   updateAppointment garage_booked 1 2 ROLE_MECHANIC
       \<lparr>d_status = Some REJECTED, d_rejectionReason = Some []\<rparr> =
     (Inl (BadRequestException
        ''Rejection reason is required when rejecting an appointment''), garage_booked) \<and>
   map_option a_rejectionReason
     (row_of (snd (updateAppointment garage_booked 1 2 ROLE_MECHANIC reject_dto)) 1) =
     Some (Some ''Sin repuestos'')"
  using updateAppointment_checks_in_order [of garage_booked 9 2 ROLE_MECHANIC reject_dto]
    updateAppointment_checks_in_order [of garage_booked 1 3 ROLE_CLIENT
      "\<lparr>d_status = Some REJECTED, d_rejectionReason = None\<rparr>"]
    updateAppointment_checks_in_order [of garage_history 2 2 ROLE_MECHANIC
      "\<lparr>d_status = Some REJECTED, d_rejectionReason = None\<rparr>"]
    updateAppointment_checks_in_order [of garage_booked 1 2 ROLE_MECHANIC
      "\<lparr>d_status = Some REJECTED, d_rejectionReason = Some []\<rparr>"]
    updateAppointment_checks_in_order [of garage_booked 1 2 ROLE_MECHANIC reject_dto]
  by (simp add: example_defs updateAppointment_def eval_defs Let_def)

subsection \<open>Status update: what the PATCH route leaves undone\<close>

text \<open>
  The generic update writes the appointment table and nothing else.
\<close>

lemma updateAppointment_writes_rows_only:
  "users (snd (updateAppointment s i userId userRole dto)) = users s \<and>
   vehicles (snd (updateAppointment s i userId userRole dto)) = vehicles s \<and>
   schedules (snd (updateAppointment s i userId userRole dto)) = schedules s \<and>
   notifications (snd (updateAppointment s i userId userRole dto)) = notifications s"
  by (simp add: updateAppointment_def repo_save_def Let_def split: option.splits)

lemma controller_updateAppointment_state:
  "snd (controller_updateAppointment toSafe s user i dto) =
   snd (updateAppointment s i (j_sub user) (j_role user) dto)"
  by (simp add: controller_updateAppointment_def split: prod.splits sum.splits)

text \<open>
  Claim C1, evaluated. Mechanic 2 rejects the pending appointment 1 (10:00 in schedule 20)
  through \<^verbatim>\<open>PATCH /appointments/:id\<close>: the status becomes \<open>rejected\<close>, but 10:00 is still
  missing from the schedule's available hours and no notification was enqueued. Accepting
  through the same route enqueues no notification either. On the same state the sibling
  methods \<^verbatim>\<open>rejectAppointment\<close> and \<^verbatim>\<open>acceptAppointment\<close>, which no route calls, do what the
  claim describes: the hour is back and the client is notified.
\<close>

theorem patch_reject_leaves_slot_taken:
  "status_of (snd (controller_updateAppointment toSafe garage_booked beto 1 reject_dto)) 1 =
     Some REJECTED \<and>
   ''10:00'' \<notin> set (availableHours (the (schedules
      (snd (controller_updateAppointment toSafe garage_booked beto 1 reject_dto)) 20))) \<and>
   notifications (snd (controller_updateAppointment toSafe garage_booked beto 1 reject_dto)) =
     notifications garage_booked \<and>
   status_of (snd (controller_updateAppointment toSafe garage_booked beto 1 accept_dto)) 1 =
     Some ACCEPTED \<and>
   notifications (snd (controller_updateAppointment toSafe garage_booked beto 1 accept_dto)) =
     notifications garage_booked \<and>
   ''10:00'' \<in> set (availableHours (the (schedules
      (snd (rejectAppointment garage_booked 1 2 \<lparr>r_rejectionReason = ''Sin repuestos''\<rparr>)) 20))) \<and>
   map n_type (notifications
      (snd (rejectAppointment garage_booked 1 2 \<lparr>r_rejectionReason = ''Sin repuestos''\<rparr>))) =
     [APPOINTMENT_CREATED, APPOINTMENT_REJECTED] \<and>
   map n_type (notifications (snd (acceptAppointment garage_booked 1 2))) =
     [APPOINTMENT_CREATED, APPOINTMENT_ACCEPTED]"
  by (simp add: controller_updateAppointment_state updateAppointment_def rejectAppointment_def
      acceptAppointment_def example_defs eval_defs Let_def)

subsection \<open>Reading one appointment\<close>

lemma getAppointmentById_row_of:
  "getAppointmentById s i =
     (case row_of s i of
        None \<Rightarrow> Inl (NotFoundException ''Cita no encontrada'')
      | Some row \<Rightarrow> Inr (load_relations s all_relations row))"
  by (simp add: getAppointmentById_def repo_findOne_row_of split: option.splits)




subsection \<open>Cancellation\<close>

lemma row_of_repo_delete: "row_of (repo_delete s i) i = None"
  by (simp add: row_of_def repo_delete_def find_None_iff)

lemma addHourToSchedule_rows:
  "appointments (snd (addHourToSchedule s k hour)) = appointments s"
  by (simp add: addHourToSchedule_def split: option.splits)

lemma addHourToSchedule_restores:
  "schedules s k = Some schedule \<Longrightarrow>
   fst (addHourToSchedule s k hour) = Inr () \<and>
   (\<exists>schedule'. schedules (snd (addHourToSchedule s k hour)) k = Some schedule' \<and>
      set (availableHours schedule') = insert hour (set (availableHours schedule)))"
  by (auto simp: addHourToSchedule_def)

lemma deleteAppointment_deletes:
  assumes "row_of s i = Some row" "a_clientId row = userId"
    "a_status row = PENDING \<or> a_status row = ACCEPTED"
  shows "deleteAppointment s i userId =
           addHourToSchedule (repo_delete s i) (a_scheduleId row) (a_hour row)"
  using assms by (auto simp: deleteAppointment_def getAppointmentById_row_of)

text \<open>
  Claim C8. \<^verbatim>\<open>deleteAppointment\<close> requires, in this order and without writing on failure,
  that the appointment exists (else NotFound), that the requester is the owning client
  (else an authorization error) and that the status is \<open>pending\<close> or \<open>accepted\<close> (a
  \<open>rejected\<close> appointment is refused). When these hold the row is deleted, and, the
  appointment's schedule being there, the call succeeds and the hour is back in the
  schedule's available hours, which otherwise are as before.
\<close>

theorem deleteAppointment_cancels:
  "(row_of s i = None \<longrightarrow>
      deleteAppointment s i userId = (Inl (NotFoundException ''Cita no encontrada''), s)) \<and>
   (\<forall>row. row_of s i = Some row \<and> a_clientId row \<noteq> userId \<longrightarrow>
      deleteAppointment s i userId =
        (Inl (ForbiddenException ''No puedes cancelar citas que no te pertenecen''), s)) \<and>
   (\<forall>row. row_of s i = Some row \<and> a_clientId row = userId \<and> a_status row = REJECTED \<longrightarrow>
      deleteAppointment s i userId =
        (Inl (BadRequestException
           ''Solo las citas pendientes o aceptadas pueden ser canceladas''), s)) \<and>
   (\<forall>row. row_of s i = Some row \<and> a_clientId row = userId \<and>
        (a_status row = PENDING \<or> a_status row = ACCEPTED) \<longrightarrow>
      row_of (snd (deleteAppointment s i userId)) i = None \<and>
      appointments (snd (deleteAppointment s i userId)) =
        filter (\<lambda>r. a_id r \<noteq> i) (appointments s) \<and>
      (\<forall>schedule. schedules s (a_scheduleId row) = Some schedule \<longrightarrow>
         fst (deleteAppointment s i userId) = Inr () \<and>
         (\<exists>schedule'. schedules (snd (deleteAppointment s i userId)) (a_scheduleId row) =
              Some schedule' \<and>
            a_hour row \<in> set (availableHours schedule') \<and>
            set (availableHours schedule') =
              insert (a_hour row) (set (availableHours schedule)))))"
proof (intro conjI allI impI)
  assume "row_of s i = None"
  then show "deleteAppointment s i userId = (Inl (NotFoundException ''Cita no encontrada''), s)"
    by (simp add: deleteAppointment_def getAppointmentById_row_of)
next
  fix row
  assume "row_of s i = Some row \<and> a_clientId row \<noteq> userId"
  then show "deleteAppointment s i userId =
        (Inl (ForbiddenException ''No puedes cancelar citas que no te pertenecen''), s)"
    by (simp add: deleteAppointment_def getAppointmentById_row_of)
next
  fix row
  assume "row_of s i = Some row \<and> a_clientId row = userId \<and> a_status row = REJECTED"
  then show "deleteAppointment s i userId =
        (Inl (BadRequestException
           ''Solo las citas pendientes o aceptadas pueden ser canceladas''), s)"
    by (simp add: deleteAppointment_def getAppointmentById_row_of)
next
  fix row
  assume a: "row_of s i = Some row \<and> a_clientId row = userId \<and>
        (a_status row = PENDING \<or> a_status row = ACCEPTED)"
  then have d: "deleteAppointment s i userId =
      addHourToSchedule (repo_delete s i) (a_scheduleId row) (a_hour row)"
    using deleteAppointment_deletes by blast
  have rows: "appointments (snd (deleteAppointment s i userId)) = appointments (repo_delete s i)"
    by (simp add: d addHourToSchedule_rows)
  then show "row_of (snd (deleteAppointment s i userId)) i = None"
    using row_of_repo_delete [of s i] by (simp add: row_of_def)
  from rows show "appointments (snd (deleteAppointment s i userId)) =
        filter (\<lambda>r. a_id r \<noteq> i) (appointments s)"
    by (simp add: repo_delete_def)
  fix schedule
  assume "schedules s (a_scheduleId row) = Some schedule"
  then have "schedules (repo_delete s i) (a_scheduleId row) = Some schedule"
    by (simp add: repo_delete_def)
  from addHourToSchedule_restores [OF this, of "a_hour row"]
  show "fst (deleteAppointment s i userId) = Inr ()"
    and "\<exists>schedule'. schedules (snd (deleteAppointment s i userId)) (a_scheduleId row) =
              Some schedule' \<and>
            a_hour row \<in> set (availableHours schedule') \<and>
            set (availableHours schedule') =
              insert (a_hour row) (set (availableHours schedule))"
    by (auto simp: d)
qed

theorem deleteAppointment_cancels_witness:
  "row_of garage_booked 9 = None \<and>
   deleteAppointment garage_booked 9 1 =
     (Inl (NotFoundException ''Cita no encontrada''), garage_booked) \<and>
   row_of garage_booked 1 = Some (stored 1 1 10 ''2026-01-22'' ''10:00'' PENDING None) \<and>
   deleteAppointment garage_booked 1 3 =
     (Inl (ForbiddenException ''No puedes cancelar citas que no te pertenecen''),
      garage_booked) \<and>
   row_of garage_history 3 =
     Some (stored 3 1 10 ''2026-01-22'' ''09:00'' REJECTED (Some ''Sin repuestos'')) \<and>
   deleteAppointment garage_history 3 1 =
     (Inl (BadRequestException ''Solo las citas pendientes o aceptadas pueden ser canceladas''),
      garage_history) \<and>
   fst (deleteAppointment garage_booked 1 1) = Inr () \<and>
   appointments (snd (deleteAppointment garage_booked 1 1)) = [] \<and>
   ''10:00'' \<notin> set (availableHours (the (schedules garage_booked 20))) \<and>
   availableHours (the (schedules (snd (deleteAppointment garage_booked 1 1)) 20)) =
     [''09:00'', ''10:00'']"
  using deleteAppointment_cancels [of garage_booked 9 1]
    deleteAppointment_cancels [of garage_booked 1 3]
    deleteAppointment_cancels [of garage_history 3 1]
    deleteAppointment_cancels [of garage_booked 1 1]
  by (simp add: deleteAppointment_def getAppointmentById_def example_defs eval_defs)

text \<open>
  The deletion comes first: were the schedule row gone, the appointment would be deleted
  all the same and the call would end in the schedule store's NotFound.
\<close>

lemma deleteAppointment_dangling_schedule:
  "row_of s i = Some row \<Longrightarrow> a_clientId row = userId \<Longrightarrow>
   a_status row = PENDING \<or> a_status row = ACCEPTED \<Longrightarrow>
   schedules s (a_scheduleId row) = None \<Longrightarrow>
   deleteAppointment s i userId = (Inl (NotFoundException []), repo_delete s i)"
  by (simp add: deleteAppointment_deletes addHourToSchedule_def repo_delete_def)

subsection \<open>Listing: scope\<close>

lemma roles_distinct [simp]:
  "ROLE_CLIENT \<noteq> ROLE_MECHANIC" "ROLE_MECHANIC \<noteq> ROLE_CLIENT"
  by (simp_all add: ROLE_CLIENT_def ROLE_MECHANIC_def)

lemma findAll_where_fields:
  "w_clientId (findAll_where userId userRole status clientId mechanicId date) =
     (if userRole = ROLE_CLIENT then Some userId
      else if truthy_number clientId then clientId else None)"
  "w_mechanicId (findAll_where userId userRole status clientId mechanicId date) =
     (if userRole = ROLE_MECHANIC then Some userId
      else if truthy_number mechanicId then mechanicId else None)"
  "w_status (findAll_where userId userRole status clientId mechanicId date) =
     (if truthy_string status then status else None)"
  "w_date (findAll_where userId userRole status clientId mechanicId date) =
     (if truthy_string date then date else None)"
  by (simp_all add: findAll_where_def Let_def)

lemma set_repo_find:
  "set (repo_find s w rels) = load_relations s rels ` {a \<in> set (appointments s). matches w a}"
  by (simp add: repo_find_def)

lemma findAll_matches:
  assumes "a \<in> set (findAll s userId userRole status clientId mechanicId date)"
  shows "\<exists>row \<in> set (appointments s).
           a = load_relations s [''client'', ''mechanic'', ''vehicle''] row \<and>
           matches (findAll_where userId userRole status clientId mechanicId date) row"
  using assms by (auto simp: findAll_def set_repo_find)

lemma matches_fields:
  "matches w a \<Longrightarrow> w_clientId w = Some c \<Longrightarrow> a_clientId a = c"
  "matches w a \<Longrightarrow> w_mechanicId w = Some m \<Longrightarrow> a_mechanicId a = m"
  "matches w a \<Longrightarrow> w_status w = Some st \<Longrightarrow> status_value (a_status a) = st"
  "matches w a \<Longrightarrow> w_date w = Some d \<Longrightarrow> a_date a = d"
  by (simp_all add: matches_def)

lemma findAll_clientId:
  assumes "a \<in> set (findAll s userId userRole status clientId mechanicId date)"
    and "w_clientId (findAll_where userId userRole status clientId mechanicId date) = Some c"
  shows "a_clientId a = c"
proof -
  from findAll_matches [OF assms(1)] obtain row where
    a: "a = load_relations s [''client'', ''mechanic'', ''vehicle''] row" and
    m: "matches (findAll_where userId userRole status clientId mechanicId date) row"
    by blast
  from matches_fields(1) [OF m assms(2)] have "a_clientId row = c" .
  with a show ?thesis by simp
qed

lemma findAll_mechanicId:
  assumes "a \<in> set (findAll s userId userRole status clientId mechanicId date)"
    and "w_mechanicId (findAll_where userId userRole status clientId mechanicId date) = Some m"
  shows "a_mechanicId a = m"
proof -
  from findAll_matches [OF assms(1)] obtain row where
    a: "a = load_relations s [''client'', ''mechanic'', ''vehicle''] row" and
    m: "matches (findAll_where userId userRole status clientId mechanicId date) row"
    by blast
  from matches_fields(2) [OF m assms(2)] have "a_mechanicId row = m" .
  with a show ?thesis by simp
qed

lemma findAll_ignores_falsy:
  "\<not> truthy_number clientId \<Longrightarrow>
   findAll s userId userRole status clientId mechanicId date =
   findAll s userId userRole status None mechanicId date"
  "\<not> truthy_number mechanicId \<Longrightarrow>
   findAll s userId userRole status clientId mechanicId date =
   findAll s userId userRole status clientId None date"
  "\<not> truthy_string status \<Longrightarrow>
   findAll s userId userRole status clientId mechanicId date =
   findAll s userId userRole None clientId mechanicId date"
  "\<not> truthy_string date \<Longrightarrow>
   findAll s userId userRole status clientId mechanicId date =
   findAll s userId userRole status clientId mechanicId None"
  by (simp_all add: findAll_def findAll_where_def Let_def)

text \<open>
  Claim C6, as the code has it. A requester with role \<open>client\<close> only receives appointments
  whose client is the requester, whatever \<open>clientId\<close> filter is supplied; a requester with
  role \<open>mechanic\<close> only receives appointments assigned to the requester, whatever
  \<open>mechanicId\<close> filter is supplied. An explicit \<open>clientId\<close> or \<open>mechanicId\<close> filter is applied
  exactly when it is non-zero and the requester's role does not pin that field; a filter
  of 0 is treated as absent.
\<close>

theorem findAll_scoping:
  "(userRole = ROLE_CLIENT \<longrightarrow>
      (\<forall>a \<in> set (findAll s userId userRole status clientId mechanicId date).
         a_clientId a = userId)) \<and>
   (userRole = ROLE_MECHANIC \<longrightarrow>
      (\<forall>a \<in> set (findAll s userId userRole status clientId mechanicId date).
         a_mechanicId a = userId)) \<and>
   (\<forall>c. userRole \<noteq> ROLE_CLIENT \<and> clientId = Some c \<and> c \<noteq> 0 \<longrightarrow>
      (\<forall>a \<in> set (findAll s userId userRole status clientId mechanicId date).
         a_clientId a = c)) \<and>
   (\<forall>m. userRole \<noteq> ROLE_MECHANIC \<and> mechanicId = Some m \<and> m \<noteq> 0 \<longrightarrow>
      (\<forall>a \<in> set (findAll s userId userRole status clientId mechanicId date).
         a_mechanicId a = m)) \<and>
   (clientId = Some 0 \<longrightarrow>
      findAll s userId userRole status clientId mechanicId date =
      findAll s userId userRole status None mechanicId date) \<and>
   (mechanicId = Some 0 \<longrightarrow>
      findAll s userId userRole status clientId mechanicId date =
      findAll s userId userRole status clientId None date) \<and>
   w_clientId (findAll_where userId userRole status clientId mechanicId date) =
     (if userRole = ROLE_CLIENT then Some userId
      else if truthy_number clientId then clientId else None) \<and>
   w_mechanicId (findAll_where userId userRole status clientId mechanicId date) =
     (if userRole = ROLE_MECHANIC then Some userId
      else if truthy_number mechanicId then mechanicId else None)"
proof (intro conjI allI impI ballI)
  fix a
  assume "userRole = ROLE_CLIENT"
    and "a \<in> set (findAll s userId userRole status clientId mechanicId date)"
  then show "a_clientId a = userId"
    using findAll_clientId [of a s userId userRole status clientId mechanicId date userId]
    by (simp add: findAll_where_fields(1))
next
  fix a
  assume "userRole = ROLE_MECHANIC"
    and "a \<in> set (findAll s userId userRole status clientId mechanicId date)"
  then show "a_mechanicId a = userId"
    using findAll_mechanicId [of a s userId userRole status clientId mechanicId date userId]
    by (simp add: findAll_where_fields(2))
next
  fix c a
  assume "userRole \<noteq> ROLE_CLIENT \<and> clientId = Some c \<and> c \<noteq> 0"
    and "a \<in> set (findAll s userId userRole status clientId mechanicId date)"
  then show "a_clientId a = c"
    using findAll_clientId [of a s userId userRole status clientId mechanicId date c]
    by (simp add: findAll_where_fields(1))
next
  fix m a
  assume "userRole \<noteq> ROLE_MECHANIC \<and> mechanicId = Some m \<and> m \<noteq> 0"
    and "a \<in> set (findAll s userId userRole status clientId mechanicId date)"
  then show "a_mechanicId a = m"
    using findAll_mechanicId [of a s userId userRole status clientId mechanicId date m]
    by (simp add: findAll_where_fields(2))
next
  assume "clientId = Some 0"
  then show "findAll s userId userRole status clientId mechanicId date =
      findAll s userId userRole status None mechanicId date"
    using findAll_ignores_falsy(1) [of clientId s userId userRole status mechanicId date]
    by simp
next
  assume "mechanicId = Some 0"
  then show "findAll s userId userRole status clientId mechanicId date =
      findAll s userId userRole status clientId None date"
    using findAll_ignores_falsy(2) [of mechanicId s userId userRole status clientId date]
    by simp
qed (simp_all add: findAll_where_fields)

text \<open>
  Listings of the example history, evaluated.
\<close>

lemma history_listings:
  "map a_id (findAll garage_history 1 ROLE_CLIENT None (Some 3) None None) = [3, 1]"
  "map a_clientId (findAll garage_history 1 ROLE_CLIENT None (Some 3) None None) = [1, 1]"
  "map a_mechanicId (findAll garage_history 2 ROLE_MECHANIC None None (Some 9) None) = [2, 2, 2]"
  "map a_id (findAll garage_history 2 ROLE_MECHANIC None (Some 3) None None) = [2]"
  "map a_clientId (findAll garage_history 2 ROLE_MECHANIC None (Some 3) None None) = [3]"
  "map a_id (findAll garage_history 1 ROLE_CLIENT None None (Some 2) None) = [3, 1]"
  "map a_id (findAll garage_history 2 ROLE_MECHANIC None None None None) = [3, 2, 1]"
  "map a_clientId (findAll garage_history 2 ROLE_MECHANIC None (Some 0) None None) = [1, 3, 1]"
  "map a_status (findAll garage_history 2 ROLE_MECHANIC None None None None) =
     [REJECTED, ACCEPTED, PENDING]"
  "map a_status (findAll garage_history 2 ROLE_MECHANIC (Some []) None None None) =
     [REJECTED, ACCEPTED, PENDING]"
  "map a_id (findAll garage_history 2 ROLE_MECHANIC (Some ''pending'') None None None) = [1]"
  "map a_id (findAll garage_history 2 ROLE_MECHANIC None None None (Some ''2026-01-22'')) = [3, 2]"
  "map (\<lambda>a. (a_date a, a_hour a)) (findAll garage_history 2 ROLE_MECHANIC None None None None) =
     [(''2026-01-22'', ''09:00''), (''2026-01-22'', ''10:00''), (''2026-01-23'', ''09:00'')]"
  by code_simp+

theorem findAll_scoping_witness:
  "map a_clientId (findAll garage_history 1 ROLE_CLIENT None (Some 3) None None) = [1, 1] \<and>
   map a_mechanicId (findAll garage_history 2 ROLE_MECHANIC None None (Some 9) None) = [2, 2, 2] \<and>
   map a_clientId (findAll garage_history 2 ROLE_MECHANIC None (Some 3) None None) = [3] \<and>
   map a_id (findAll garage_history 1 ROLE_CLIENT None None (Some 2) None) = [3, 1] \<and>
   findAll garage_history 2 ROLE_MECHANIC None (Some 0) None None =
     findAll garage_history 2 ROLE_MECHANIC None None None None"
  using findAll_scoping [of ROLE_CLIENT garage_history 1 None "Some 3" None None]
    findAll_scoping [of ROLE_MECHANIC garage_history 2 None None "Some 9" None]
    findAll_scoping [of ROLE_MECHANIC garage_history 2 None "Some 3" None None]
    findAll_scoping [of ROLE_CLIENT garage_history 1 None None "Some 2" None]
    findAll_scoping [of ROLE_MECHANIC garage_history 2 None "Some 0" None None]
    history_listings
  by simp

text \<open>
  Claim C6 as stated fails for the filter \<open>clientId = 0\<close>: the mechanic's role does not pin
  the client, yet the filter is not applied and appointments of clients 1 and 3 are
  listed.
\<close>

theorem findAll_zero_clientId_counterexample:
  "ROLE_MECHANIC \<noteq> ROLE_CLIENT \<and>
   map a_clientId (findAll garage_history 2 ROLE_MECHANIC None (Some 0) None None) = [1, 3, 1] \<and>
   \<not> (\<forall>a \<in> set (findAll garage_history 2 ROLE_MECHANIC None (Some 0) None None).
         a_clientId a = 0)"
proof -
  have "\<not> (\<forall>c \<in> set (map a_clientId
      (findAll garage_history 2 ROLE_MECHANIC None (Some 0) None None)). c = 0)"
    by (simp add: history_listings)
  then have "\<not> (\<forall>a \<in> set (findAll garage_history 2 ROLE_MECHANIC None (Some 0) None None).
         a_clientId a = 0)"
    by simp
  then show ?thesis
    by (simp add: history_listings)
qed

subsection \<open>Listing: status and date filters, order\<close>

lemma findAll_where_status:
  "st \<noteq> [] \<Longrightarrow>
   findAll_where userId userRole (Some st) clientId mechanicId date =
   (findAll_where userId userRole None clientId mechanicId date)\<lparr>w_status := Some st\<rparr>"
  by (simp add: findAll_where_def Let_def)

lemma findAll_where_date:
  "d \<noteq> [] \<Longrightarrow>
   findAll_where userId userRole status clientId mechanicId (Some d) =
   (findAll_where userId userRole status clientId mechanicId None)\<lparr>w_date := Some d\<rparr>"
  by (simp add: findAll_where_def Let_def)

lemma matches_status:
  "w_status w = None \<Longrightarrow>
   matches (w\<lparr>w_status := Some st\<rparr>) a = (matches w a \<and> status_value (a_status a) = st)"
  by (auto simp: matches_def)

lemma matches_date:
  "w_date w = None \<Longrightarrow>
   matches (w\<lparr>w_date := Some d\<rparr>) a = (matches w a \<and> a_date a = d)"
  by (auto simp: matches_def)

lemma filter_repo_find:
  assumes "\<And>a. P (load_relations s rels a) = Q a"
  shows "filter P (repo_find s w rels) =
         sort_key (\<lambda>a. (a_date a, a_hour a))
           (map (load_relations s rels) (filter (\<lambda>a. matches w a \<and> Q a) (appointments s)))"
proof -
  have "P \<circ> load_relations s rels = Q"
    using assms by (simp add: fun_eq_iff)
  then show ?thesis
    by (simp add: repo_find_def filter_sort filter_map)
qed

lemma findAll_status_filter:
  assumes "st \<noteq> []"
  shows "findAll s userId userRole (Some st) clientId mechanicId date =
         filter (\<lambda>a. status_value (a_status a) = st)
           (findAll s userId userRole None clientId mechanicId date)"
proof -
  let ?w = "findAll_where userId userRole None clientId mechanicId date"
  have none: "w_status ?w = None"
    by (simp add: findAll_where_fields(3))
  have "filter (\<lambda>a. status_value (a_status a) = st)
          (repo_find s ?w [''client'', ''mechanic'', ''vehicle'']) =
        sort_key (\<lambda>a. (a_date a, a_hour a))
          (map (load_relations s [''client'', ''mechanic'', ''vehicle''])
             (filter (\<lambda>a. matches ?w a \<and> status_value (a_status a) = st) (appointments s)))"
    by (rule filter_repo_find) simp
  also have "\<dots> = repo_find s (?w\<lparr>w_status := Some st\<rparr>) [''client'', ''mechanic'', ''vehicle'']"
  proof -
    have "matches (?w\<lparr>w_status := Some st\<rparr>) =
        (\<lambda>a. matches ?w a \<and> status_value (a_status a) = st)"
      by (simp add: fun_eq_iff matches_status [OF none])
    then show ?thesis
      by (simp only: repo_find_def)
  qed
  finally show ?thesis
    by (simp add: findAll_def findAll_where_status [OF assms])
qed

lemma findAll_date_filter:
  assumes "d \<noteq> []"
  shows "findAll s userId userRole status clientId mechanicId (Some d) =
         filter (\<lambda>a. a_date a = d)
           (findAll s userId userRole status clientId mechanicId None)"
proof -
  let ?w = "findAll_where userId userRole status clientId mechanicId None"
  have none: "w_date ?w = None"
    by (simp add: findAll_where_fields(4))
  have "filter (\<lambda>a. a_date a = d)
          (repo_find s ?w [''client'', ''mechanic'', ''vehicle'']) =
        sort_key (\<lambda>a. (a_date a, a_hour a))
          (map (load_relations s [''client'', ''mechanic'', ''vehicle''])
             (filter (\<lambda>a. matches ?w a \<and> a_date a = d) (appointments s)))"
    by (rule filter_repo_find) simp
  also have "\<dots> = repo_find s (?w\<lparr>w_date := Some d\<rparr>) [''client'', ''mechanic'', ''vehicle'']"
  proof -
    have "matches (?w\<lparr>w_date := Some d\<rparr>) = (\<lambda>a. matches ?w a \<and> a_date a = d)"
      by (simp add: fun_eq_iff matches_date [OF none])
    then show ?thesis
      by (simp only: repo_find_def)
  qed
  finally show ?thesis
    by (simp add: findAll_def findAll_where_date [OF assms])
qed

lemma matches_in_scope:
  "matches (findAll_where userId userRole None clientId mechanicId None) a =
   in_scope userId userRole clientId mechanicId a"
  by (cases clientId; cases mechanicId)
     (auto simp: matches_def in_scope_def findAll_where_fields)

lemma findAll_unfiltered:
  "set (findAll s userId userRole None clientId mechanicId None) =
   load_relations s [''client'', ''mechanic'', ''vehicle''] `
     {a \<in> set (appointments s). in_scope userId userRole clientId mechanicId a}"
  by (simp add: findAll_def set_repo_find matches_in_scope)

lemma findAll_sorted:
  "sorted (map (\<lambda>a. (a_date a, a_hour a))
     (findAll s userId userRole status clientId mechanicId date))"
  by (simp add: findAll_def repo_find_def)

text \<open>
  Claim C7, as the code has it. With no status and no date filter the listing holds
  exactly the appointments in the caller's scope, of every status. A non-empty status
  filter keeps exactly the appointments of the listing without it whose status equals the
  filter, and a non-empty date filter those whose date equals it, in the same order. An
  empty string as status or date filter is treated as no filter. Every listing is sorted
  by date and then by hour, ascending.
\<close>

theorem findAll_filters_and_order:
  "set (findAll s userId userRole None clientId mechanicId None) =
     load_relations s [''client'', ''mechanic'', ''vehicle''] `
       {a \<in> set (appointments s). in_scope userId userRole clientId mechanicId a} \<and>
   (\<forall>st. st \<noteq> [] \<longrightarrow>
      findAll s userId userRole (Some st) clientId mechanicId date =
      filter (\<lambda>a. status_value (a_status a) = st)
        (findAll s userId userRole None clientId mechanicId date)) \<and>
   (\<forall>d. d \<noteq> [] \<longrightarrow>
      findAll s userId userRole status clientId mechanicId (Some d) =
      filter (\<lambda>a. a_date a = d)
        (findAll s userId userRole status clientId mechanicId None)) \<and>
   findAll s userId userRole (Some []) clientId mechanicId date =
     findAll s userId userRole None clientId mechanicId date \<and>
   findAll s userId userRole status clientId mechanicId (Some []) =
     findAll s userId userRole status clientId mechanicId None \<and>
   sorted (map (\<lambda>a. (a_date a, a_hour a))
     (findAll s userId userRole status clientId mechanicId date))"
proof (intro conjI allI impI)
  show "findAll s userId userRole (Some []) clientId mechanicId date =
     findAll s userId userRole None clientId mechanicId date"
    using findAll_ignores_falsy(3) [of "Some []" s userId userRole clientId mechanicId date]
    by simp
  show "findAll s userId userRole status clientId mechanicId (Some []) =
     findAll s userId userRole status clientId mechanicId None"
    using findAll_ignores_falsy(4) [of "Some []" s userId userRole status clientId mechanicId]
    by simp
next
  fix st :: string
  assume "st \<noteq> []"
  then show "findAll s userId userRole (Some st) clientId mechanicId date =
      filter (\<lambda>a. status_value (a_status a) = st)
        (findAll s userId userRole None clientId mechanicId date)"
    by (rule findAll_status_filter)
next
  fix d :: string
  assume "d \<noteq> []"
  then show "findAll s userId userRole status clientId mechanicId (Some d) =
      filter (\<lambda>a. a_date a = d)
        (findAll s userId userRole status clientId mechanicId None)"
    by (rule findAll_date_filter)
qed (rule findAll_unfiltered findAll_sorted)+

theorem findAll_filters_and_order_witness:
  "map a_status (findAll garage_history 2 ROLE_MECHANIC None None None None) =
     [REJECTED, ACCEPTED, PENDING] \<and>
   map a_id (findAll garage_history 2 ROLE_MECHANIC (Some ''pending'') None None None) = [1] \<and>
   map a_id (findAll garage_history 2 ROLE_MECHANIC None None None (Some ''2026-01-22'')) =
     [3, 2] \<and>
   map (\<lambda>a. (a_date a, a_hour a)) (findAll garage_history 2 ROLE_MECHANIC None None None None) =
     [(''2026-01-22'', ''09:00''), (''2026-01-22'', ''10:00''), (''2026-01-23'', ''09:00'')] \<and>
   findAll garage_history 2 ROLE_MECHANIC (Some ''pending'') None None None =
     filter (\<lambda>a. status_value (a_status a) = ''pending'')
       (findAll garage_history 2 ROLE_MECHANIC None None None None) \<and>
   findAll garage_history 2 ROLE_MECHANIC None None None (Some ''2026-01-22'') =
     filter (\<lambda>a. a_date a = ''2026-01-22'')
       (findAll garage_history 2 ROLE_MECHANIC None None None None)"
  using findAll_filters_and_order
      [of garage_history 2 ROLE_MECHANIC None None None None]
    history_listings
  by simp

text \<open>
  Claim C7 as stated fails for the status filter that is the empty string: it is supplied,
  but it is not applied as an equality filter, and appointments of all three statuses are
  listed.
\<close>

theorem findAll_empty_status_counterexample:
  "map a_status (findAll garage_history 2 ROLE_MECHANIC (Some []) None None None) =
     [REJECTED, ACCEPTED, PENDING] \<and>
   \<not> (\<forall>a \<in> set (findAll garage_history 2 ROLE_MECHANIC (Some []) None None None).
         status_value (a_status a) = [])"
proof -
  have "\<not> (\<forall>st \<in> set (map a_status
      (findAll garage_history 2 ROLE_MECHANIC (Some []) None None None)).
         status_value st = [])"
    by (simp add: history_listings)
  then have "\<not> (\<forall>a \<in> set (findAll garage_history 2 ROLE_MECHANIC (Some []) None None None).
         status_value (a_status a) = [])"
    by simp
  then show ?thesis
    by (simp add: history_listings)
qed

subsection \<open>The status state machine\<close>

lemma find_map_other:
  "i \<noteq> j \<Longrightarrow> a_id y = j \<Longrightarrow>
   find (\<lambda>a. a_id a = i) (map (\<lambda>row. if a_id row = j then y else row) xs) =
   find (\<lambda>a. a_id a = i) xs"
  by (induction xs) auto

lemma find_filter_other:
  "i \<noteq> j \<Longrightarrow>
   find (\<lambda>a. a_id a = i) (filter (\<lambda>row. a_id row \<noteq> j) xs) = find (\<lambda>a. a_id a = i) xs"
  by (induction xs) auto

lemma find_filter_same:
  "find (\<lambda>a. a_id a = i) (filter (\<lambda>row. a_id row \<noteq> i) xs) = None"
  by (simp add: find_None_iff)

lemma find_append_new:
  "find (\<lambda>a. a_id a = i) (xs @ [y]) =
     (case find (\<lambda>a. a_id a = i) xs of
        Some x \<Rightarrow> Some x
      | None \<Rightarrow> if a_id y = i then Some y else None)"
  by (induction xs) auto

lemma status_of_row_of: "status_of s i = map_option a_status (row_of s i)"
  by (simp add: status_of_def row_of_def)

text \<open>The three ways in which a request changes the appointment table.\<close>

lemma saved_statuses:
  assumes "row_of s j = Some row" "a_status row = PENDING" "a_id saved = j"
    and "appointments s' = appointments (snd (repo_save s saved))"
  shows "status_of s i = None \<longrightarrow> status_of s' i = None"
    and "status_of s i = Some st \<longrightarrow>
           (\<exists>st'. status_of s' i = Some st' \<and> allowed_transition st st')"
proof -
  have rows: "appointments s' =
      map (\<lambda>r. if a_id r = j then columns saved else r) (appointments s)"
    using assms(3,4) by (simp add: repo_save_def)
  have idc: "a_id (columns saved) = j"
    using assms(3) by (simp add: columns_def)
  show "status_of s i = None \<longrightarrow> status_of s' i = None"
  proof (cases "i = j")
    case True
    with assms(1) show ?thesis by (simp add: status_of_row_of)
  next
    case False
    then show ?thesis
      using find_map_other [OF False idc, of "appointments s"]
      by (simp add: status_of_def rows)
  qed
  show "status_of s i = Some st \<longrightarrow>
           (\<exists>st'. status_of s' i = Some st' \<and> allowed_transition st st')"
  proof (cases "i = j")
    case True
    have "find (\<lambda>a. a_id a = j) (appointments s') = Some (columns saved)"
      using find_map_replace [of j "appointments s" row "columns saved"] assms(1) idc
      by (simp add: rows row_of_def)
    with True assms(1,2) show ?thesis
      by (cases "a_status (columns saved)")
         (auto simp: status_of_def row_of_def allowed_transition_def)
  next
    case False
    then show ?thesis
      using find_map_other [OF False idc, of "appointments s"]
      by (auto simp: status_of_def rows allowed_transition_def)
  qed
qed

lemma primary_key_ids:
  "primary_key s \<longleftrightarrow>
     distinct (map a_id (appointments s)) \<and>
     (\<forall>k \<in> set (map a_id (appointments s)). k < nextAppointmentId s)"
  by (simp add: primary_key_def list_all_iff)

lemma saved_primary_key:
  assumes "a_id saved = j"
    and "appointments s' = appointments (snd (repo_save s saved))"
    and "nextAppointmentId s' = nextAppointmentId s"
    and "primary_key s"
  shows "primary_key s'"
proof -
  have "map a_id (appointments s') = map a_id (appointments s)"
    using assms(1,2) by (simp add: repo_save_def columns_def)
  then show ?thesis
    using assms(3,4) unfolding primary_key_ids by metis
qed

lemma deleted_statuses:
  assumes "appointments s' = appointments (repo_delete s j)"
  shows "status_of s' j = None"
    and "i \<noteq> j \<longrightarrow> status_of s' i = status_of s i"
  using assms find_filter_other [of i j "appointments s"]
  by (simp_all add: status_of_def repo_delete_def find_filter_same)

lemma deleted_primary_key:
  assumes "appointments s' = appointments (repo_delete s j)"
    and "nextAppointmentId s' = nextAppointmentId s"
    and "primary_key s"
  shows "primary_key s'"
  using assms
  by (auto simp: primary_key_def repo_delete_def distinct_map_filter list_all_iff)

lemma booked_statuses:
  assumes "appointments s' = appointments s @ [a]" "a_id a = nextAppointmentId s"
    "a_status a = PENDING"
  shows "status_of s i = Some st \<longrightarrow> status_of s' i = Some st"
    and "status_of s i = None \<longrightarrow>
           status_of s' i = None \<or>
           status_of s' i = Some PENDING \<and> i = nextAppointmentId s"
  using assms by (auto simp: status_of_def find_append_new split: option.splits)

lemma booked_primary_key:
  assumes "appointments s' = appointments s @ [a]" "a_id a = nextAppointmentId s"
    "nextAppointmentId s' = Suc (nextAppointmentId s)" "primary_key s"
  shows "primary_key s'"
  using assms by (auto simp: primary_key_def list_all_iff)


text \<open>What each request does to the appointment table.\<close>

lemma createAppointment_table:
  "appointments (snd (createAppointment s clientId dto)) = appointments s \<and>
   nextAppointmentId (snd (createAppointment s clientId dto)) = nextAppointmentId s \<or>
   (\<exists>a. appointments (snd (createAppointment s clientId dto)) = appointments s @ [a] \<and>
      a_id a = nextAppointmentId s \<and> a_status a = PENDING \<and>
      nextAppointmentId (snd (createAppointment s clientId dto)) = Suc (nextAppointmentId s))"
  by (auto simp: create_defs Let_def split: sum.splits option.splits)

lemma repo_save_counter [simp]:
  "nextAppointmentId (snd (repo_save s a)) = nextAppointmentId s"
  by (simp add: repo_save_def)

lemma table_decided:
  assumes "nextAppointmentId s' = nextAppointmentId s"
    and "row_of s i = Some row" "a_status row = PENDING" "a_id saved = i"
    and "appointments s' = appointments (snd (repo_save s saved))"
  shows "nextAppointmentId s' = nextAppointmentId s \<and>
     (appointments s' = appointments s \<or>
      (\<exists>row saved. row_of s i = Some row \<and> a_status row = PENDING \<and> a_id saved = i \<and>
         appointments s' = appointments (snd (repo_save s saved))))"
  using assms by blast

lemma updateAppointment_table:
  "nextAppointmentId (snd (updateAppointment s i userId userRole dto)) = nextAppointmentId s \<and>
   (appointments (snd (updateAppointment s i userId userRole dto)) = appointments s \<or>
    (\<exists>row saved. row_of s i = Some row \<and> a_status row = PENDING \<and> a_id saved = i \<and>
       appointments (snd (updateAppointment s i userId userRole dto)) =
       appointments (snd (repo_save s saved))))"
proof (cases "row_of s i")
  case None
  then show ?thesis by (simp add: updateAppointment_not_found)
next
  case (Some row)
  show ?thesis
  proof (cases "actor_mismatch row userId userRole \<or> a_status row \<noteq> PENDING \<or>
      d_status dto = Some REJECTED \<and> \<not> truthy_string (d_rejectionReason dto)")
    case True
    then have "snd (updateAppointment s i userId userRole dto) = s"
      using Some updateAppointment_forbidden [of s i row userId userRole dto]
        updateAppointment_not_pending [of s i row userId userRole dto]
        updateAppointment_reason_required [of s i row userId userRole dto]
      by (cases "a_status row = PENDING"; cases "actor_mismatch row userId userRole") auto
    then show ?thesis by simp
  next
    case False
    then obtain saved where
      u: "updateAppointment s i userId userRole dto = (Inr saved, snd (repo_save s saved))"
      and saved: "a_id saved = i"
      using updateAppointment_saves [of s i row userId userRole dto] Some by blast
    from u have rows: "appointments (snd (updateAppointment s i userId userRole dto)) =
        appointments (snd (repo_save s saved))"
      and counter: "nextAppointmentId (snd (updateAppointment s i userId userRole dto)) =
        nextAppointmentId s"
      by simp_all
    from False have pending: "a_status row = PENDING" by simp
    show ?thesis
      by (rule table_decided [OF counter Some pending saved rows])
  qed
qed

lemma updateAppointmentStatus_table:
  "nextAppointmentId (snd (updateAppointmentStatus s i mechanicId dto)) = nextAppointmentId s \<and>
   (appointments (snd (updateAppointmentStatus s i mechanicId dto)) = appointments s \<or>
    (\<exists>row saved. row_of s i = Some row \<and> a_status row = PENDING \<and> a_id saved = i \<and>
       appointments (snd (updateAppointmentStatus s i mechanicId dto)) =
       appointments (snd (repo_save s saved))))"
proof (cases "row_of s i")
  case None
  then show ?thesis
    by (simp add: updateAppointmentStatus_def repo_findOne_row_of)
next
  case (Some row)
  then have i: "a_id row = i" by (rule row_of_id)
  show ?thesis
  proof (cases "a_mechanicId row \<noteq> mechanicId \<or> a_status row \<noteq> PENDING \<or>
      d_status dto = Some REJECTED \<and> \<not> truthy_string (d_rejectionReason dto)")
    case True
    with Some have "snd (updateAppointmentStatus s i mechanicId dto) = s"
      by (auto simp: updateAppointmentStatus_def repo_findOne_row_of)
    then show ?thesis by simp
  next
    case False
    let ?a1 = "case d_status dto of
                 Some status \<Rightarrow> (load_relations s all_relations row)\<lparr>a_status := status\<rparr>
               | None \<Rightarrow> load_relations s all_relations row"
    let ?a2 = "if truthy_string (d_rejectionReason dto)
               then ?a1\<lparr>a_rejectionReason := d_rejectionReason dto\<rparr> else ?a1"
    from False Some have "snd (updateAppointmentStatus s i mechanicId dto) =
        snd (repo_save s ?a2)"
      by (auto simp: updateAppointmentStatus_def repo_findOne_row_of Let_def split_beta)
    then have rows: "appointments (snd (updateAppointmentStatus s i mechanicId dto)) =
        appointments (snd (repo_save s ?a2))"
      and counter: "nextAppointmentId (snd (updateAppointmentStatus s i mechanicId dto)) =
        nextAppointmentId s"
      by simp_all
    have saved: "a_id ?a2 = i"
      using i by (simp split: option.splits)
    from False have pending: "a_status row = PENDING" by simp
    show ?thesis
      by (rule table_decided [OF counter Some pending saved rows])
  qed
qed

lemma createNotification_table [simp]:
  "appointments (createNotification s n) = appointments s"
  "nextAppointmentId (createNotification s n) = nextAppointmentId s"
  by (simp_all add: createNotification_def)

lemma addHourToSchedule_counter [simp]:
  "nextAppointmentId (snd (addHourToSchedule s k hour)) = nextAppointmentId s"
  by (simp add: addHourToSchedule_def split: option.splits)

lemma acceptAppointment_table:
  "nextAppointmentId (snd (acceptAppointment s i mechanicId)) = nextAppointmentId s \<and>
   (appointments (snd (acceptAppointment s i mechanicId)) = appointments s \<or>
    (\<exists>row saved. row_of s i = Some row \<and> a_status row = PENDING \<and> a_id saved = i \<and>
       appointments (snd (acceptAppointment s i mechanicId)) =
       appointments (snd (repo_save s saved))))"
proof (cases "row_of s i")
  case None
  then show ?thesis
    by (simp add: acceptAppointment_def repo_findOne_row_of)
next
  case (Some row)
  then have i: "a_id row = i" by (rule row_of_id)
  show ?thesis
  proof (cases "a_mechanicId row \<noteq> mechanicId \<or> a_status row \<noteq> PENDING")
    case True
    with Some have "snd (acceptAppointment s i mechanicId) = s"
      by (auto simp: acceptAppointment_def repo_findOne_row_of)
    then show ?thesis by simp
  next
    case False
    let ?a = "(load_relations s all_relations row)\<lparr>a_status := ACCEPTED\<rparr>"
    from False Some have
      rows: "appointments (snd (acceptAppointment s i mechanicId)) =
         appointments (snd (repo_save s ?a))" and
      counter: "nextAppointmentId (snd (acceptAppointment s i mechanicId)) =
         nextAppointmentId s"
      by (simp_all add: acceptAppointment_def repo_findOne_row_of split_beta
          split: option.splits)
    have saved: "a_id ?a = i"
      using i by simp
    from False have pending: "a_status row = PENDING" by simp
    show ?thesis
      by (rule table_decided [OF counter Some pending saved rows])
  qed
qed

lemma rejectAppointment_table:
  "nextAppointmentId (snd (rejectAppointment s i mechanicId dto)) = nextAppointmentId s \<and>
   (appointments (snd (rejectAppointment s i mechanicId dto)) = appointments s \<or>
    (\<exists>row saved. row_of s i = Some row \<and> a_status row = PENDING \<and> a_id saved = i \<and>
       appointments (snd (rejectAppointment s i mechanicId dto)) =
       appointments (snd (repo_save s saved))))"
proof (cases "row_of s i")
  case None
  then show ?thesis
    by (simp add: rejectAppointment_def repo_findOne_row_of)
next
  case (Some row)
  then have i: "a_id row = i" by (rule row_of_id)
  show ?thesis
  proof (cases "a_mechanicId row \<noteq> mechanicId \<or> a_status row \<noteq> PENDING")
    case True
    with Some have "snd (rejectAppointment s i mechanicId dto) = s"
      by (auto simp: rejectAppointment_def repo_findOne_row_of)
    then show ?thesis by simp
  next
    case False
    let ?a = "(load_relations s all_relations row)
                \<lparr>a_status := REJECTED, a_rejectionReason := Some (r_rejectionReason dto)\<rparr>"
    from False Some have
      rows: "appointments (snd (rejectAppointment s i mechanicId dto)) =
         appointments (snd (repo_save s ?a))" and
      counter: "nextAppointmentId (snd (rejectAppointment s i mechanicId dto)) =
         nextAppointmentId s"
      by (simp_all add: rejectAppointment_def repo_findOne_row_of split_beta
          addHourToSchedule_rows split: sum.splits)
    have saved: "a_id ?a = i"
      using i by simp
    from False have pending: "a_status row = PENDING" by simp
    show ?thesis
      by (rule table_decided [OF counter Some pending saved rows])
  qed
qed

lemma deleteAppointment_table:
  "nextAppointmentId (snd (deleteAppointment s i userId)) = nextAppointmentId s \<and>
   (appointments (snd (deleteAppointment s i userId)) = appointments s \<or>
    (\<exists>row. row_of s i = Some row \<and> (a_status row = PENDING \<or> a_status row = ACCEPTED) \<and>
       appointments (snd (deleteAppointment s i userId)) = appointments (repo_delete s i)))"
proof (cases "row_of s i")
  case None
  then show ?thesis
    by (simp add: deleteAppointment_def getAppointmentById_row_of)
next
  case (Some row)
  show ?thesis
  proof (cases "a_clientId row = userId \<and> (a_status row = PENDING \<or> a_status row = ACCEPTED)")
    case True
    then have "deleteAppointment s i userId =
        addHourToSchedule (repo_delete s i) (a_scheduleId row) (a_hour row)"
      using Some deleteAppointment_deletes by blast
    then have "appointments (snd (deleteAppointment s i userId)) = appointments (repo_delete s i)"
      "nextAppointmentId (snd (deleteAppointment s i userId)) = nextAppointmentId s"
      by (simp_all add: addHourToSchedule_rows repo_delete_def)
    with True Some show ?thesis by auto
  next
    case False
    with Some have "snd (deleteAppointment s i userId) = s"
      by (auto simp: deleteAppointment_def getAppointmentById_row_of)
    then show ?thesis by simp
  qed
qed


text \<open>From the table to the statuses.\<close>

lemma same_table:
  assumes "appointments s' = appointments s" "nextAppointmentId s' = nextAppointmentId s"
  shows "status_of s' i = status_of s i" and "primary_key s' = primary_key s"
  using assms by (simp_all add: status_of_def primary_key_def)

lemma decided_step:
  assumes "nextAppointmentId s' = nextAppointmentId s \<and>
     (appointments s' = appointments s \<or>
      (\<exists>row saved. row_of s j = Some row \<and> a_status row = PENDING \<and> a_id saved = j \<and>
         appointments s' = appointments (snd (repo_save s saved))))"
  shows "(primary_key s \<longrightarrow> primary_key s') \<and>
     (\<forall>st. status_of s i = Some st \<longrightarrow>
        (\<exists>st'. status_of s' i = Some st' \<and> allowed_transition st st')) \<and>
     (status_of s i = None \<longrightarrow> status_of s' i = None)"
proof (cases "appointments s' = appointments s")
  case True
  from assms have c: "nextAppointmentId s' = nextAppointmentId s" by simp
  have "status_of s' i = status_of s i" "primary_key s' = primary_key s"
    by (rule same_table [OF True c])+
  then show ?thesis
    by (simp add: allowed_transition_def)
next
  case False
  with assms obtain row saved where
    c: "nextAppointmentId s' = nextAppointmentId s" and
    r: "row_of s j = Some row" "a_status row = PENDING" "a_id saved = j"
       "appointments s' = appointments (snd (repo_save s saved))"
    by blast
  show ?thesis
    using saved_statuses [OF r] saved_primary_key [OF r(3,4) c] by blast
qed

lemma cancelled_step:
  assumes "nextAppointmentId s' = nextAppointmentId s \<and>
     (appointments s' = appointments s \<or>
      (\<exists>row. row_of s j = Some row \<and> (a_status row = PENDING \<or> a_status row = ACCEPTED) \<and>
         appointments s' = appointments (repo_delete s j)))"
  shows "(primary_key s \<longrightarrow> primary_key s') \<and>
     (\<forall>st. status_of s i = Some st \<longrightarrow>
        status_of s' i = Some st \<or>
        status_of s' i = None \<and> i = j \<and> (st = PENDING \<or> st = ACCEPTED)) \<and>
     (status_of s i = None \<longrightarrow> status_of s' i = None)"
proof (cases "appointments s' = appointments s")
  case True
  from assms have c: "nextAppointmentId s' = nextAppointmentId s" by simp
  have "status_of s' i = status_of s i" "primary_key s' = primary_key s"
    by (rule same_table [OF True c])+
  then show ?thesis
    by simp
next
  case False
  with assms obtain row where
    c: "nextAppointmentId s' = nextAppointmentId s" and
    r: "row_of s j = Some row" "a_status row = PENDING \<or> a_status row = ACCEPTED" and
    d: "appointments s' = appointments (repo_delete s j)"
    by blast
  from r(1) have st: "status_of s j = Some (a_status row)"
    by (simp add: status_of_row_of)
  have pk: "primary_key s \<longrightarrow> primary_key s'"
    using deleted_primary_key [OF d c] by blast
  have gone: "status_of s' j = None"
    by (rule deleted_statuses(1) [OF d])
  have others: "i \<noteq> j \<longrightarrow> status_of s' i = status_of s i"
    by (rule deleted_statuses(2) [OF d])
  show ?thesis
  proof (cases "i = j")
    case True
    have "status_of s i = Some st \<longrightarrow>
        status_of s' i = Some st \<or>
        status_of s' i = None \<and> i = j \<and> (st = PENDING \<or> st = ACCEPTED)" for st
      using st r(2) gone True by auto
    moreover have "status_of s i = None \<longrightarrow> status_of s' i = None"
      using gone True by simp
    ultimately show ?thesis
      using pk by blast
  next
    case False
    with others have "status_of s' i = status_of s i" by simp
    then show ?thesis
      using pk by simp
  qed
qed

lemma booked_step:
  assumes "appointments s' = appointments s \<and> nextAppointmentId s' = nextAppointmentId s \<or>
     (\<exists>a. appointments s' = appointments s @ [a] \<and> a_id a = nextAppointmentId s \<and>
        a_status a = PENDING \<and> nextAppointmentId s' = Suc (nextAppointmentId s))"
  shows "(primary_key s \<longrightarrow> primary_key s') \<and>
     (\<forall>st. status_of s i = Some st \<longrightarrow> status_of s' i = Some st) \<and>
     (status_of s i = None \<longrightarrow>
        status_of s' i = None \<or> status_of s' i = Some PENDING \<and> i = nextAppointmentId s)"
proof (cases "appointments s' = appointments s \<and> nextAppointmentId s' = nextAppointmentId s")
  case True
  then have "status_of s' i = status_of s i" "primary_key s' = primary_key s"
    by (simp_all add: status_of_def primary_key_def)
  then show ?thesis
    by simp
next
  case False
  with assms obtain a where
    a: "appointments s' = appointments s @ [a]" "a_id a = nextAppointmentId s"
       "a_status a = PENDING" and
    c: "nextAppointmentId s' = Suc (nextAppointmentId s)"
    by blast
  show ?thesis
    using booked_statuses [OF a] booked_primary_key [OF a(1,2) c] by blast
qed

text \<open>
  Claim C5. For every request of the service (booking, generic update, status update,
  accept, reject, cancel), every state and every appointment id:
  \<^item> the primary key of the appointment table is preserved;
  \<^item> an appointment that is still stored afterwards has the status it had, or it was
    \<open>pending\<close> and is now \<open>accepted\<close> or \<open>rejected\<close>; so no request changes the status of
    an \<open>accepted\<close> or \<open>rejected\<close> appointment;
  \<^item> an appointment that is gone afterwards was cancelled by this very request, and was
    \<open>pending\<close> or \<open>accepted\<close>;
  \<^item> an id that was free is still free, or is the new \<open>pending\<close> appointment of a booking.
\<close>

theorem status_only_leaves_pending:
  "(primary_key s \<longrightarrow> primary_key (run s operation)) \<and>
   (\<forall>st. status_of s i = Some st \<longrightarrow>
      (case status_of (run s operation) i of
         Some st' \<Rightarrow> st' = st \<or> st = PENDING \<and> (st' = ACCEPTED \<or> st' = REJECTED)
       | None \<Rightarrow> cancels operation i \<and> (st = PENDING \<or> st = ACCEPTED))) \<and>
   (status_of s i = None \<longrightarrow>
      status_of (run s operation) i = None \<or>
      status_of (run s operation) i = Some PENDING \<and> books operation \<and>
        i = nextAppointmentId s)"
proof (cases operation)
  case (CreateAppointment clientId dto)
  with booked_step [OF createAppointment_table, of s clientId dto i] show ?thesis
    by auto
next
  case (UpdateAppointment j userId userRole dto)
  with decided_step [OF updateAppointment_table, of s j userId userRole dto i] show ?thesis
    by (auto simp: allowed_transition_def)
next
  case (UpdateAppointmentStatus j mechanicId dto)
  with decided_step [OF updateAppointmentStatus_table, of s j mechanicId dto i] show ?thesis
    by (auto simp: allowed_transition_def)
next
  case (AcceptAppointment j mechanicId)
  with decided_step [OF acceptAppointment_table, of s j mechanicId i] show ?thesis
    by (auto simp: allowed_transition_def)
next
  case (RejectAppointment j mechanicId dto)
  with decided_step [OF rejectAppointment_table, of s j mechanicId dto i] show ?thesis
    by (auto simp: allowed_transition_def)
next
  case (DeleteAppointment j userId)
  with cancelled_step [OF deleteAppointment_table, of s j userId i] show ?thesis
    by auto
qed


theorem status_only_leaves_pending_witness:
  "primary_key garage_booked \<and> primary_key garage_history \<and>
   status_of garage_booked 1 = Some PENDING \<and>
   status_of (run garage_booked (UpdateAppointment 1 2 ROLE_MECHANIC accept_dto)) 1 =
     Some ACCEPTED \<and>
   status_of (run garage_booked (RejectAppointment 1 2 \<lparr>r_rejectionReason = ''Sin repuestos''\<rparr>)) 1 =
     Some REJECTED \<and>
   status_of garage_history 2 = Some ACCEPTED \<and>
   status_of (run garage_history (UpdateAppointment 2 2 ROLE_MECHANIC reject_dto)) 2 =
     Some ACCEPTED \<and>
   status_of garage_history 3 = Some REJECTED \<and>
   status_of (run garage_history (UpdateAppointment 3 2 ROLE_MECHANIC accept_dto)) 3 =
     Some REJECTED \<and>
   status_of (run garage_history (DeleteAppointment 3 1)) 3 = Some REJECTED \<and>
   status_of (run garage_history (DeleteAppointment 2 3)) 2 = None \<and>
   cancels (DeleteAppointment 2 3) 2 \<and>
   status_of garage 1 = None \<and>
   status_of (run garage (CreateAppointment 1 booking)) 1 = Some PENDING \<and>
   primary_key (run garage (CreateAppointment 1 booking))"
  using status_only_leaves_pending
      [of garage_booked "UpdateAppointment 1 2 ROLE_MECHANIC accept_dto" 1]
    status_only_leaves_pending
      [of garage_booked "RejectAppointment 1 2 \<lparr>r_rejectionReason = ''Sin repuestos''\<rparr>" 1]
    status_only_leaves_pending
      [of garage_history "UpdateAppointment 2 2 ROLE_MECHANIC reject_dto" 2]
    status_only_leaves_pending
      [of garage_history "UpdateAppointment 3 2 ROLE_MECHANIC accept_dto" 3]
    status_only_leaves_pending [of garage_history "DeleteAppointment 3 1" 3]
    status_only_leaves_pending [of garage_history "DeleteAppointment 2 3" 2]
    status_only_leaves_pending [of garage "CreateAppointment 1 booking" 1]
  by (simp add: example_defs create_defs eval_defs primary_key_def updateAppointment_def
      rejectAppointment_def deleteAppointment_def getAppointmentById_def Let_def)

end
